theory Spec2Isabelle
  imports Complex_Main "HOL-Library.AList" "HOL-Library.Word"
begin

section \<open>The cube demo of \<open>src/index.js\<close>\<close>

text \<open>
  The program is one script: two helpers (\<open>loadShader\<close>, \<open>createProgram\<close>) and
  \<open>main\<close>, which builds seven draggable markers (``sliders''), installs the mouse
  handlers, sets up a WebGL pipeline (program, three buffers, one texture) and defines
  \<open>render\<close>. The model below follows the script top to bottom. The browser and the
  WebGL driver are not part of the repository: the few calls of theirs that the script
  makes are modelled as small state transformers on a record of the context's objects,
  and what only the driver decides (whether a shader compiles, whether a program links,
  where an attribute lives) is a field of the record \<open>platform\<close>.
\<close>

subsection \<open>JavaScript numbers\<close>

text \<open>
  Pixel coordinates and image sizes are integers (\<open>clientX\<close>, \<open>offsetLeft\<close>;
  \<open>image.width\<close> is an unsigned long). Their quotient is a JavaScript number: the
  finite case is modelled by the exact rational (the rounding of IEEE-754 doubles is not
  modelled), and a division by zero does not raise but gives \<open>Infinity\<close>,
  \<open>-Infinity\<close> or \<open>NaN\<close>, which are values of their own.
\<close>

datatype jsnum = Num rat | PosInfinity | NegInfinity | NaN

definition js_div :: "int \<Rightarrow> nat \<Rightarrow> jsnum" where
  "js_div a b =
     (if b \<noteq> 0 then Num (of_int a / of_nat b)
      else if 0 < a then PosInfinity
      else if a < 0 then NegInfinity
      else NaN)"

subsection \<open>The WebGL context\<close>

type_synonym handle = nat

datatype gl_enum =
    VERTEX_SHADER | FRAGMENT_SHADER
  | ARRAY_BUFFER | ELEMENT_ARRAY_BUFFER | STATIC_DRAW
  | TEXTURE_2D | TEXTURE_WRAP_S | TEXTURE_WRAP_T | TEXTURE_MIN_FILTER | TEXTURE_MAG_FILTER
  | REPEAT | CLAMP_TO_EDGE | NEAREST | LINEAR | NEAREST_MIPMAP_LINEAR
  | RGBA | UNSIGNED_BYTE | UNSIGNED_SHORT | FLOAT | TRIANGLES

record shader_obj =
  sh_type :: gl_enum
  sh_source :: string
  sh_compiled :: bool
  sh_info_log :: string

record program_obj =
  pr_attached :: "handle list"
  pr_linked :: bool
  pr_info_log :: string

datatype buffer_data = Float32Array "rat list" | Uint16Array "16 word list"

datatype tex_image = Pixels nat nat "8 word list" | ImagePixels nat nat

record texture_obj =
  wrap_s :: gl_enum
  wrap_t :: gl_enum
  min_filter :: gl_enum
  mag_filter :: gl_enum
  level0 :: "tex_image option"

record vertex_attrib =
  va_buffer :: "handle option"
  va_size :: nat
  va_enabled :: bool

text \<open>
  What the driver decides: whether the page gets a context at all, the outcome of a
  compilation (status and info log) from the stage and the source text, the outcome of a
  link from the attached shaders, and the location of a named attribute.
\<close>

record platform =
  webgl_supported :: bool
  compile_result :: "gl_enum \<Rightarrow> string \<Rightarrow> bool \<times> string"
  link_result :: "shader_obj list \<Rightarrow> bool \<times> string"
  attrib_location :: "string \<Rightarrow> int"

text \<open>
  A draw call is logged with what it reads: its arguments, the current program, the data
  of the bound element array, the attribute arrays (the data of the buffer each pointer
  was set from) and the texture object bound to \<open>TEXTURE_2D\<close>.
\<close>

record draw_call =
  dc_mode :: gl_enum
  dc_count :: nat
  dc_type :: gl_enum
  dc_offset :: nat
  dc_program :: "handle option"
  dc_elements :: "buffer_data option"
  dc_arrays :: "(int \<times> nat \<times> buffer_data option) list"
  dc_texture :: "texture_obj option"

text \<open>
  The context: its objects by handle (association lists, in creation order), its
  bindings, and the log of the draw calls. The record also carries the lines written
  with \<open>console.error\<close>, the one global the two helpers write to.
\<close>

record gl_context =
  driver :: platform
  next_handle :: handle
  shaders :: "(handle \<times> shader_obj) list"
  programs :: "(handle \<times> program_obj) list"
  buffers :: "(handle \<times> buffer_data option) list"
  textures :: "(handle \<times> texture_obj) list"
  array_buffer_binding :: "handle option"
  element_array_buffer_binding :: "handle option"
  texture_binding_2d :: "handle option"
  current_program :: "handle option"
  vertex_attribs :: "(int \<times> vertex_attrib) list"
  draws :: "draw_call list"
  console_errors :: "(string \<times> string) list"

definition getContext :: "platform \<Rightarrow> gl_context" where
  "getContext pf =
     \<lparr>driver = pf, next_handle = 1, shaders = [], programs = [], buffers = [], textures = [],
      array_buffer_binding = None, element_array_buffer_binding = None,
      texture_binding_2d = None, current_program = None, vertex_attribs = [],
      draws = [], console_errors = []\<rparr>"

definition console_error :: "gl_context \<Rightarrow> string \<Rightarrow> string \<Rightarrow> gl_context" where
  "console_error gl msg detail = gl\<lparr>console_errors := console_errors gl @ [(msg, detail)]\<rparr>"

paragraph \<open>Shaders and programs\<close>

definition gl_createShader :: "gl_context \<Rightarrow> gl_enum \<Rightarrow> handle \<times> gl_context" where
  "gl_createShader gl ty =
     (next_handle gl,
      gl\<lparr>next_handle := Suc (next_handle gl),
         shaders := AList.update (next_handle gl)
           \<lparr>sh_type = ty, sh_source = [], sh_compiled = False, sh_info_log = []\<rparr> (shaders gl)\<rparr>)"

definition gl_shaderSource :: "gl_context \<Rightarrow> handle \<Rightarrow> string \<Rightarrow> gl_context" where
  "gl_shaderSource gl sh src =
     gl\<lparr>shaders := AList.map_entry sh (\<lambda>ob. ob\<lparr>sh_source := src\<rparr>) (shaders gl)\<rparr>"

definition gl_compileShader :: "gl_context \<Rightarrow> handle \<Rightarrow> gl_context" where
  "gl_compileShader gl sh =
     gl\<lparr>shaders := AList.map_entry sh
        (\<lambda>ob. ob\<lparr>sh_compiled := fst (compile_result (driver gl) (sh_type ob) (sh_source ob)),
               sh_info_log := snd (compile_result (driver gl) (sh_type ob) (sh_source ob))\<rparr>)
        (shaders gl)\<rparr>"

definition gl_getShaderParameter_COMPILE_STATUS :: "gl_context \<Rightarrow> handle \<Rightarrow> bool" where
  "gl_getShaderParameter_COMPILE_STATUS gl sh =
     (case map_of (shaders gl) sh of None \<Rightarrow> False | Some ob \<Rightarrow> sh_compiled ob)"

definition gl_getShaderInfoLog :: "gl_context \<Rightarrow> handle \<Rightarrow> string" where
  "gl_getShaderInfoLog gl sh =
     (case map_of (shaders gl) sh of None \<Rightarrow> [] | Some ob \<Rightarrow> sh_info_log ob)"

text \<open>
  A shader that is attached to a program is only flagged by \<open>deleteShader\<close> and lives
  on until it is detached; any other shader is freed at once.
\<close>

definition gl_deleteShader :: "gl_context \<Rightarrow> handle \<Rightarrow> gl_context" where
  "gl_deleteShader gl sh =
     (if list_ex (\<lambda>(p, ob). sh \<in> set (pr_attached ob)) (programs gl) then gl
      else gl\<lparr>shaders := AList.delete sh (shaders gl)\<rparr>)"

definition gl_createProgram :: "gl_context \<Rightarrow> handle \<times> gl_context" where
  "gl_createProgram gl =
     (next_handle gl,
      gl\<lparr>next_handle := Suc (next_handle gl),
         programs := AList.update (next_handle gl)
           \<lparr>pr_attached = [], pr_linked = False, pr_info_log = []\<rparr> (programs gl)\<rparr>)"

text \<open>Attaching a handle that names no shader is an error of the API and changes nothing.\<close>

definition gl_attachShader :: "gl_context \<Rightarrow> handle \<Rightarrow> handle \<Rightarrow> gl_context" where
  "gl_attachShader gl prog sh =
     (if map_of (shaders gl) sh = None then gl
      else gl\<lparr>programs := AList.map_entry prog
             (\<lambda>ob. ob\<lparr>pr_attached := pr_attached ob @ [sh]\<rparr>) (programs gl)\<rparr>)"

definition attached_shaders :: "gl_context \<Rightarrow> program_obj \<Rightarrow> shader_obj list" where
  "attached_shaders gl ob = List.map_filter (map_of (shaders gl)) (pr_attached ob)"

definition gl_linkProgram :: "gl_context \<Rightarrow> handle \<Rightarrow> gl_context" where
  "gl_linkProgram gl prog =
     gl\<lparr>programs := AList.map_entry prog
        (\<lambda>ob. ob\<lparr>pr_linked := fst (link_result (driver gl) (attached_shaders gl ob)),
               pr_info_log := snd (link_result (driver gl) (attached_shaders gl ob))\<rparr>)
        (programs gl)\<rparr>"

definition gl_getProgramParameter_LINK_STATUS :: "gl_context \<Rightarrow> handle \<Rightarrow> bool" where
  "gl_getProgramParameter_LINK_STATUS gl prog =
     (case map_of (programs gl) prog of None \<Rightarrow> False | Some ob \<Rightarrow> pr_linked ob)"

definition gl_getProgramInfoLog :: "gl_context \<Rightarrow> handle \<Rightarrow> string" where
  "gl_getProgramInfoLog gl prog =
     (case map_of (programs gl) prog of None \<Rightarrow> [] | Some ob \<Rightarrow> pr_info_log ob)"

text \<open>
  Deleting a program that is not the current one frees it; its shaders are detached by
  that, and none of them is deleted unless it was flagged before. A current program is
  only flagged.
\<close>

definition gl_deleteProgram :: "gl_context \<Rightarrow> handle \<Rightarrow> gl_context" where
  "gl_deleteProgram gl prog =
     (if current_program gl = Some prog then gl
      else gl\<lparr>programs := AList.delete prog (programs gl)\<rparr>)"

definition gl_useProgram :: "gl_context \<Rightarrow> handle option \<Rightarrow> gl_context" where
  "gl_useProgram gl prog = gl\<lparr>current_program := prog\<rparr>"

definition gl_getAttribLocation :: "gl_context \<Rightarrow> handle \<Rightarrow> string \<Rightarrow> int" where
  "gl_getAttribLocation gl prog name = attrib_location (driver gl) name"

subsection \<open>\<open>loadShader\<close> and \<open>createProgram\<close>\<close>

text \<open>The JavaScript \<open>null\<close> that both return on failure is \<open>None\<close>.\<close>

definition loadShader :: "gl_context \<Rightarrow> gl_enum \<Rightarrow> string \<Rightarrow> handle option \<times> gl_context" where
  "loadShader gl ty source =
     (let (shader, gl) = gl_createShader gl ty;
          gl = gl_shaderSource gl shader source;
          gl = gl_compileShader gl shader
      in if \<not> gl_getShaderParameter_COMPILE_STATUS gl shader
         then let gl = console_error gl ''Error compiling shader'' (gl_getShaderInfoLog gl shader);
                  gl = gl_deleteShader gl shader
              in (None, gl)
         else (Some shader, gl))"

definition createProgram :: "gl_context \<Rightarrow> handle \<Rightarrow> handle \<Rightarrow> handle option \<times> gl_context" where
  "createProgram gl vertexShader fragmentShader =
     (let (program, gl) = gl_createProgram gl;
          gl = gl_attachShader gl program vertexShader;
          gl = gl_attachShader gl program fragmentShader;
          gl = gl_linkProgram gl program
      in if \<not> gl_getProgramParameter_LINK_STATUS gl program
         then let gl = console_error gl ''Error linking program'' (gl_getProgramInfoLog gl program);
                  gl = gl_deleteProgram gl program
              in (None, gl)
         else (Some program, gl))"

subsection \<open>Buffers, textures and the draw call\<close>

definition gl_createBuffer :: "gl_context \<Rightarrow> handle \<times> gl_context" where
  "gl_createBuffer gl =
     (next_handle gl,
      gl\<lparr>next_handle := Suc (next_handle gl),
         buffers := AList.update (next_handle gl) None (buffers gl)\<rparr>)"

definition gl_bindBuffer :: "gl_context \<Rightarrow> gl_enum \<Rightarrow> handle option \<Rightarrow> gl_context" where
  "gl_bindBuffer gl target buf =
     (if target = ARRAY_BUFFER then gl\<lparr>array_buffer_binding := buf\<rparr>
      else if target = ELEMENT_ARRAY_BUFFER then gl\<lparr>element_array_buffer_binding := buf\<rparr>
      else gl)"

definition bound_buffer :: "gl_context \<Rightarrow> gl_enum \<Rightarrow> handle option" where
  "bound_buffer gl target =
     (if target = ARRAY_BUFFER then array_buffer_binding gl
      else if target = ELEMENT_ARRAY_BUFFER then element_array_buffer_binding gl
      else None)"

text \<open>\<open>bufferData\<close> replaces the whole data store of the buffer bound to the target.\<close>

definition gl_bufferData :: "gl_context \<Rightarrow> gl_enum \<Rightarrow> buffer_data \<Rightarrow> gl_enum \<Rightarrow> gl_context" where
  "gl_bufferData gl target dat usage =
     (case bound_buffer gl target of
        None \<Rightarrow> gl
      | Some b \<Rightarrow> gl\<lparr>buffers := AList.map_entry b (\<lambda>_. Some dat) (buffers gl)\<rparr>)"

definition buffer_contents :: "gl_context \<Rightarrow> handle \<Rightarrow> buffer_data option" where
  "buffer_contents gl b = (case map_of (buffers gl) b of Some (Some dat) \<Rightarrow> Some dat | _ \<Rightarrow> None)"

text \<open>A new texture has the defaults of the API: repeat wrapping, a mipmapping minification filter.\<close>

definition gl_createTexture :: "gl_context \<Rightarrow> handle \<times> gl_context" where
  "gl_createTexture gl =
     (next_handle gl,
      gl\<lparr>next_handle := Suc (next_handle gl),
         textures := AList.update (next_handle gl)
           \<lparr>wrap_s = REPEAT, wrap_t = REPEAT, min_filter = NEAREST_MIPMAP_LINEAR,
            mag_filter = LINEAR, level0 = None\<rparr> (textures gl)\<rparr>)"

definition gl_bindTexture :: "gl_context \<Rightarrow> gl_enum \<Rightarrow> handle option \<Rightarrow> gl_context" where
  "gl_bindTexture gl target tex =
     (if target = TEXTURE_2D then gl\<lparr>texture_binding_2d := tex\<rparr> else gl)"

definition set_tex_parameter :: "gl_enum \<Rightarrow> gl_enum \<Rightarrow> texture_obj \<Rightarrow> texture_obj" where
  "set_tex_parameter pname param t =
     (if pname = TEXTURE_WRAP_S then t\<lparr>wrap_s := param\<rparr>
      else if pname = TEXTURE_WRAP_T then t\<lparr>wrap_t := param\<rparr>
      else if pname = TEXTURE_MIN_FILTER then t\<lparr>min_filter := param\<rparr>
      else if pname = TEXTURE_MAG_FILTER then t\<lparr>mag_filter := param\<rparr>
      else t)"

definition gl_texParameteri :: "gl_context \<Rightarrow> gl_enum \<Rightarrow> gl_enum \<Rightarrow> gl_enum \<Rightarrow> gl_context" where
  "gl_texParameteri gl target pname param =
     (case (if target = TEXTURE_2D then texture_binding_2d gl else None) of
        None \<Rightarrow> gl
      | Some t \<Rightarrow> gl\<lparr>textures := AList.map_entry t (set_tex_parameter pname param) (textures gl)\<rparr>)"

text \<open>
  The two overloads of \<open>texImage2D\<close> that the script calls: from a typed array with
  explicit width, height and border, and from an image element (here its size). Only
  mipmap level 0 is kept.
\<close>

definition gl_texImage2D :: "gl_context \<Rightarrow> gl_enum \<Rightarrow> nat \<Rightarrow> gl_enum \<Rightarrow> nat \<Rightarrow> nat \<Rightarrow> nat \<Rightarrow>
    gl_enum \<Rightarrow> gl_enum \<Rightarrow> 8 word list \<Rightarrow> gl_context" where
  "gl_texImage2D gl target level internalFormat w h border srcFormat srcType pixels =
     (case (if target = TEXTURE_2D \<and> level = 0 then texture_binding_2d gl else None) of
        None \<Rightarrow> gl
      | Some t \<Rightarrow> gl\<lparr>textures := AList.map_entry t (\<lambda>ob. ob\<lparr>level0 := Some (Pixels w h pixels)\<rparr>)
                       (textures gl)\<rparr>)"

definition gl_texImage2D_image :: "gl_context \<Rightarrow> gl_enum \<Rightarrow> nat \<Rightarrow> gl_enum \<Rightarrow> gl_enum \<Rightarrow> gl_enum \<Rightarrow>
    nat \<times> nat \<Rightarrow> gl_context" where
  "gl_texImage2D_image gl target level internalFormat srcFormat srcType img =
     (case (if target = TEXTURE_2D \<and> level = 0 then texture_binding_2d gl else None) of
        None \<Rightarrow> gl
      | Some t \<Rightarrow> gl\<lparr>textures := AList.map_entry t
                       (\<lambda>ob. ob\<lparr>level0 := Some (ImagePixels (fst img) (snd img))\<rparr>) (textures gl)\<rparr>)"

text \<open>
  Attribute indices are unsigned in the API: the location \<open>-1\<close> of an attribute that
  the program does not have is out of range there, and the call changes nothing.
\<close>

definition get_vertex_attrib :: "gl_context \<Rightarrow> int \<Rightarrow> vertex_attrib" where
  "get_vertex_attrib gl index =
     (case map_of (vertex_attribs gl) index of
        None \<Rightarrow> \<lparr>va_buffer = None, va_size = 4, va_enabled = False\<rparr>
      | Some a \<Rightarrow> a)"

definition gl_vertexAttribPointer :: "gl_context \<Rightarrow> int \<Rightarrow> nat \<Rightarrow> gl_enum \<Rightarrow> bool \<Rightarrow> nat \<Rightarrow> nat \<Rightarrow>
    gl_context" where
  "gl_vertexAttribPointer gl index sz ty normalized stride offset =
     (if index < 0 then gl
      else gl\<lparr>vertex_attribs := AList.update index
             ((get_vertex_attrib gl index)\<lparr>va_buffer := array_buffer_binding gl, va_size := sz\<rparr>)
             (vertex_attribs gl)\<rparr>)"

definition gl_enableVertexAttribArray :: "gl_context \<Rightarrow> int \<Rightarrow> gl_context" where
  "gl_enableVertexAttribArray gl index =
     (if index < 0 then gl
      else gl\<lparr>vertex_attribs := AList.update index
             ((get_vertex_attrib gl index)\<lparr>va_enabled := True\<rparr>) (vertex_attribs gl)\<rparr>)"

definition gl_drawElements :: "gl_context \<Rightarrow> gl_enum \<Rightarrow> nat \<Rightarrow> gl_enum \<Rightarrow> nat \<Rightarrow> gl_context" where
  "gl_drawElements gl mode count ty offset =
     gl\<lparr>draws := draws gl @
        [\<lparr>dc_mode = mode, dc_count = count, dc_type = ty, dc_offset = offset,
          dc_program = current_program gl,
          dc_elements = Option.bind (element_array_buffer_binding gl) (buffer_contents gl),
          dc_arrays = map (\<lambda>(i, a). (i, va_size a, Option.bind (va_buffer a) (buffer_contents gl)))
                        (filter (\<lambda>(i, a). va_enabled a) (vertex_attribs gl)),
          dc_texture = Option.bind (texture_binding_2d gl) (map_of (textures gl))\<rparr>]\<rparr>"

subsection \<open>The state of the page\<close>

text \<open>
  A slider is a \<open>div\<close> with two extra properties, which are \<open>undefined\<close> (\<open>None\<close>)
  until the first drag, and a style: \<open>left\<close> starts as \<open>30px\<close>, \<open>top\<close> is unset.
  Pixel lengths are kept as integers, without the suffix \<open>px\<close>.
\<close>

record slider =
  posInImageXPercent :: "jsnum option"
  posInImageYPercent :: "jsnum option"
  style_left :: int
  style_top :: "int option"

definition new_slider :: slider where
  "new_slider = \<lparr>posInImageXPercent = None, posInImageYPercent = None,
                 style_left = 30, style_top = None\<rparr>"

record html_image =
  offsetLeft :: int
  offsetTop :: int
  width :: nat
  height :: nat

record program_info =
  aPos :: int
  aTexCoord :: int

text \<open>
  The variables of \<open>main\<close> that the handlers and \<open>render\<close> close over. \<open>dragging\<close>
  is a reference to one of the sliders or \<open>null\<close>: here the slider's index.
\<close>

record app_state =
  sliders :: "slider list"
  dragging :: "nat option"
  image_el :: html_image
  gl :: gl_context
  programInfo :: program_info
  posBuffer :: handle
  texCoordBuffer :: handle
  indexBuffer :: handle
  texture :: handle

subsection \<open>\<open>render\<close>\<close>

text \<open>
  The part of \<open>render\<close> that talks to WebGL. The drawing on the 2D canvas, the clear
  and the three uniform uploads touch nothing of the state kept here and are left out;
  texture unit 0, which \<open>activeTexture\<close> selects, is the only unit.
\<close>

definition render :: "app_state \<Rightarrow> app_state" where
  "render s =
     (let g = gl s;
          g = gl_bindBuffer g ARRAY_BUFFER (Some (posBuffer s));
          g = gl_vertexAttribPointer g (aPos (programInfo s)) 3 FLOAT False 0 0;
          g = gl_enableVertexAttribArray g (aPos (programInfo s));
          g = gl_bindBuffer g ARRAY_BUFFER (Some (texCoordBuffer s));
          g = gl_vertexAttribPointer g (aTexCoord (programInfo s)) 2 FLOAT False 0 0;
          g = gl_enableVertexAttribArray g (aTexCoord (programInfo s));
          g = gl_bindBuffer g ELEMENT_ARRAY_BUFFER (Some (indexBuffer s));
          g = gl_bindTexture g TEXTURE_2D (Some (texture s));
          g = gl_drawElements g TRIANGLES 18 UNSIGNED_SHORT 0
      in s\<lparr>gl := g\<rparr>)"

subsection \<open>The mouse handlers\<close>

text \<open>
  \<open>slider.onmousedown\<close> of slider \<open>i\<close>; there are only the sliders that \<open>main\<close>
  made, so an index beyond them is no event of the page.
\<close>

definition onmousedown :: "nat \<Rightarrow> app_state \<Rightarrow> app_state" where
  "onmousedown i s = (if i < length (sliders s) then s\<lparr>dragging := Some i\<rparr> else s)"

definition onmouseup :: "app_state \<Rightarrow> app_state" where
  "onmouseup s = s\<lparr>dragging := None\<rparr>"

definition onmousemove :: "int \<Rightarrow> int \<Rightarrow> app_state \<Rightarrow> app_state" where
  "onmousemove clientX clientY s =
     (case dragging s of
        None \<Rightarrow> s
      | Some d \<Rightarrow>
          let clientCenterX = clientX;
              clientCenterY = clientY;
              imageTopLeftX = offsetLeft (image_el s);
              imageTopLeftY = offsetTop (image_el s);
              posInImageX = clientCenterX - imageTopLeftX;
              posInImageY = clientCenterY - imageTopLeftY;
              xPercent = js_div posInImageX (width (image_el s));
              yPercent = js_div posInImageY (height (image_el s));
              clampedClientCenterX =
                max imageTopLeftX (min (imageTopLeftX + int (width (image_el s))) clientCenterX);
              clampedClientCenterY =
                max imageTopLeftY (min (imageTopLeftY + int (height (image_el s))) clientCenterY)
          in render (s\<lparr>sliders := (sliders s)[d := (sliders s ! d)
                 \<lparr>posInImageXPercent := Some xPercent,
                  posInImageYPercent := Some yPercent,
                  style_left := clampedClientCenterX - 5,
                  style_top := Some (clampedClientCenterY - 5)\<rparr>]\<rparr>))"

text \<open>
  \<open>image.onload\<close>: the browser has decoded an image of the given size, which is what
  \<open>image.width\<close> and \<open>image.height\<close> read from then on; the handler uploads it into
  the same texture object and renders.
\<close>

definition image_onload :: "nat \<Rightarrow> nat \<Rightarrow> app_state \<Rightarrow> app_state" where
  "image_onload w h s =
     (let s = s\<lparr>image_el := (image_el s)\<lparr>width := w, height := h\<rparr>\<rparr>;
          g = gl_bindTexture (gl s) TEXTURE_2D (Some (texture s));
          g = gl_texImage2D_image g TEXTURE_2D 0 RGBA RGBA UNSIGNED_BYTE (w, h)
      in render (s\<lparr>gl := g\<rparr>))"

subsection \<open>\<open>main\<close>\<close>

definition vertexShaderSource :: string where
  "vertexShaderSource = concat (map (\<lambda>l. l @ [CHR 0x0A])
     ['''',
      ''    attribute vec4 aPos;'',
      ''    attribute vec2 aTexCoord;'',
      '''',
      ''    uniform mat4 uModelMat;'',
      ''    uniform mat4 uProjMat;'',
      '''',
      ''    varying vec2 vTexCoord;'',
      '''',
      ''    void main(void) {'',
      ''      gl_Position = uProjMat * uModelMat * aPos;'',
      ''      vTexCoord = aTexCoord;'',
      ''    }'']) @ ''    ''"

definition fragmentShaderSource :: string where
  "fragmentShaderSource = concat (map (\<lambda>l. l @ [CHR 0x0A])
     ['''',
      ''    precision mediump float;'',
      '''',
      ''    uniform sampler2D uSampler;'',
      '''',
      ''    varying vec2 vTexCoord;'',
      '''',
      ''    void main(void) {'',
      ''        gl_FragColor = texture2D(uSampler, vTexCoord);'',
      ''    }'']) @ ''    ''"

text \<open>The three tables handed to \<open>bufferData\<close>, and the placeholder pixel.\<close>

definition posData :: "rat list" where
  "posData =
     [-1, -1, 1,
      1, -1, 1,
      -1, 1, 1,
      1, 1, 1,
      1, -1, -1,
      -1, 1, -1,
      1, 1, -1,
      1, 1, -1]"

definition texCoordData :: "rat list" where
  "texCoordData =
     [0, 1,
      1/2, 1,
      0, 1/2,
      1/2, 1/2,
      1, 1,
      0, 0,
      1/2, 0,
      1, 1/2]"

definition indexData :: "16 word list" where
  "indexData =
     [0, 2, 3, 0, 3, 1,
      2, 5, 6, 2, 6, 3,
      1, 3, 7, 1, 7, 4]"

definition pixel :: "8 word list" where
  "pixel = [0, 0, 255, 255]"

text \<open>The loop that makes the seven sliders and pushes each onto \<open>sliders\<close>.\<close>

definition make_sliders :: "slider list" where
  "make_sliders = foldl (\<lambda>acc i. acc @ [new_slider]) [] [0..<7]"

text \<open>
  \<open>main\<close> returns early when the page gets no WebGL context. It does not check what
  \<open>loadShader\<close> and \<open>createProgram\<close> return: a \<open>null\<close> shader reaches
  \<open>attachShader\<close> and a \<open>null\<close> program reaches \<open>getAttribLocation\<close>, whose
  parameters are not nullable, so the call throws a \<open>TypeError\<close> that nothing catches
  and \<open>main\<close> ends there, before any buffer or texture exists.
\<close>

datatype main_abort = WebGLNotSupported | TypeError

definition setup_buffers :: "gl_context \<Rightarrow> (handle \<times> handle \<times> handle) \<times> gl_context" where
  "setup_buffers g0 =
     (let (posBuf, g) = gl_createBuffer g0;
          g = gl_bindBuffer g ARRAY_BUFFER (Some posBuf);
          g = gl_bufferData g ARRAY_BUFFER (Float32Array posData) STATIC_DRAW;
          (texCoordBuf, g) = gl_createBuffer g;
          g = gl_bindBuffer g ARRAY_BUFFER (Some texCoordBuf);
          g = gl_bufferData g ARRAY_BUFFER (Float32Array texCoordData) STATIC_DRAW;
          (indexBuf, g) = gl_createBuffer g;
          g = gl_bindBuffer g ELEMENT_ARRAY_BUFFER (Some indexBuf);
          g = gl_bufferData g ELEMENT_ARRAY_BUFFER (Uint16Array indexData) STATIC_DRAW
      in ((posBuf, texCoordBuf, indexBuf), g))"

definition load_texture :: "gl_context \<Rightarrow> handle \<times> gl_context" where
  "load_texture g0 =
     (let (tex, g) = gl_createTexture g0;
          g = gl_bindTexture g TEXTURE_2D (Some tex);
          g = gl_texParameteri g TEXTURE_2D TEXTURE_WRAP_S CLAMP_TO_EDGE;
          g = gl_texParameteri g TEXTURE_2D TEXTURE_WRAP_T CLAMP_TO_EDGE;
          g = gl_texParameteri g TEXTURE_2D TEXTURE_MIN_FILTER LINEAR;
          g = gl_texParameteri g TEXTURE_2D TEXTURE_MAG_FILTER LINEAR;
          g = gl_texImage2D g TEXTURE_2D 0 RGBA 1 1 0 RGBA UNSIGNED_BYTE pixel
      in (tex, g))"

definition main :: "platform \<Rightarrow> main_abort + app_state" where
  "main pf =
     (if \<not> webgl_supported pf then Inl WebGLNotSupported
      else
        let g = getContext pf;
            (vertexShader, g) = loadShader g VERTEX_SHADER vertexShaderSource;
            (fragmentShader, g) = loadShader g FRAGMENT_SHADER fragmentShaderSource
        in case (vertexShader, fragmentShader) of
             (Some vs, Some fs) \<Rightarrow>
               (case createProgram g vs fs of
                  (None, g) \<Rightarrow> Inl TypeError
                | (Some program, g) \<Rightarrow>
                    let g = gl_useProgram g (Some program);
                        info = \<lparr>aPos = gl_getAttribLocation g program ''aPos'',
                                aTexCoord = gl_getAttribLocation g program ''aTexCoord''\<rparr>;
                        ((posBuf, texCoordBuf, indexBuf), g) = setup_buffers g;
                        (tex, g) = load_texture g
                    in Inr (render
                         \<lparr>sliders = make_sliders, dragging = None,
                          image_el = \<lparr>offsetLeft = 0, offsetTop = 0, width = 0, height = 0\<rparr>,
                          gl = g, programInfo = info, posBuffer = posBuf,
                          texCoordBuffer = texCoordBuf, indexBuffer = indexBuf, texture = tex\<rparr>))
           | _ \<Rightarrow> Inl TypeError)"

subsection \<open>Sessions\<close>

text \<open>
  After \<open>main\<close> the page reacts to events: a press on slider \<open>i\<close>, a mouse move over
  the body, a release, and the load of an image (the placeholder file or an upload).
\<close>

datatype event = SliderMouseDown nat | BodyMouseMove int int | BodyMouseUp | ImageOnload nat nat

fun step :: "app_state \<Rightarrow> event \<Rightarrow> app_state" where
  "step s (SliderMouseDown i) = onmousedown i s"
| "step s (BodyMouseMove x y) = onmousemove x y s"
| "step s BodyMouseUp = onmouseup s"
| "step s (ImageOnload w h) = image_onload w h s"

definition run :: "event list \<Rightarrow> app_state \<Rightarrow> app_state" where
  "run evs s = foldl step s evs"

subsection \<open>Observations and concrete platforms\<close>

text \<open>The fraction pair and the on-screen position of every marker, in slider order.\<close>

definition marker_fractions :: "app_state \<Rightarrow> (jsnum option \<times> jsnum option) list" where
  "marker_fractions s = map (\<lambda>m. (posInImageXPercent m, posInImageYPercent m)) (sliders s)"

definition marker_positions :: "app_state \<Rightarrow> (int \<times> int option) list" where
  "marker_positions s = map (\<lambda>m. (style_left m, style_top m)) (sliders s)"

text \<open>
  The texture coordinates of the vertices: the data of the buffer that \<open>render\<close> binds
  to \<open>aTexCoord\<close>, two floats per vertex.
\<close>

fun pairs :: "'a list \<Rightarrow> ('a \<times> 'a) list" where
  "pairs (u # v # rest) = (u, v) # pairs rest"
| "pairs _ = []"

definition texCoords :: "app_state \<Rightarrow> (rat \<times> rat) list" where
  "texCoords s =
     (case buffer_contents (gl s) (texCoordBuffer s) of
        Some (Float32Array xs) \<Rightarrow> pairs xs
      | _ \<Rightarrow> [])"

definition vertices_with_texCoord :: "rat \<times> rat \<Rightarrow> app_state \<Rightarrow> nat list" where
  "vertices_with_texCoord p s = filter (\<lambda>v. texCoords s ! v = p) [0..<length (texCoords s)]"

text \<open>The texture that \<open>main\<close> leaves behind: the four parameters and the one pixel.\<close>

definition placeholder_texture :: texture_obj where
  "placeholder_texture =
     \<lparr>wrap_s = CLAMP_TO_EDGE, wrap_t = CLAMP_TO_EDGE, min_filter = LINEAR, mag_filter = LINEAR,
      level0 = Some (Pixels 1 1 pixel)\<rparr>"

text \<open>
  What every draw of a session has in common, and the part of the state that no handler
  changes. The handles are the ones a fresh context hands out in the order of \<open>main\<close>.
\<close>

definition good_draw :: "program_info \<Rightarrow> draw_call \<Rightarrow> bool" where
  "good_draw info d \<longleftrightarrow>
     dc_mode d = TRIANGLES \<and> dc_count d = 18 \<and> dc_type d = UNSIGNED_SHORT \<and> dc_offset d = 0 \<and>
     dc_elements d = Some (Uint16Array indexData) \<and>
     (aTexCoord info < 0 \<or>
      map_of (dc_arrays d) (aTexCoord info) = Some (2, Some (Float32Array texCoordData)))"

definition pipeline_inv :: "app_state \<Rightarrow> bool" where
  "pipeline_inv s \<longleftrightarrow>
     posBuffer s = 4 \<and> texCoordBuffer s = 5 \<and> indexBuffer s = 6 \<and>
     buffers (gl s) = [(4, Some (Float32Array posData)), (5, Some (Float32Array texCoordData)),
                       (6, Some (Uint16Array indexData))] \<and>
     draws (gl s) \<noteq> [] \<and>
     list_all (good_draw (programInfo s)) (draws (gl s))"

text \<open>
  What a draw reads. \<open>drawElements\<close> takes \<open>count\<close> indices from the bound element
  array, starting at the byte offset given (two bytes per unsigned short); for each of
  them it reads one vertex from every enabled attribute array. An array set with
  \<open>vertexAttribPointer\<close> at stride 0 and offset 0 is tightly packed, so a buffer of
  \<open>n\<close> floats read \<open>sz\<close> components at a time has \<open>n div sz\<close> vertices.
\<close>

definition indices_read :: "draw_call \<Rightarrow> 16 word list" where
  "indices_read d =
     (case dc_elements d of
        Some (Uint16Array ixs) \<Rightarrow> take (dc_count d) (drop (dc_offset d div 2) ixs)
      | _ \<Rightarrow> [])"

definition array_vertex_count :: "nat \<Rightarrow> buffer_data option \<Rightarrow> nat" where
  "array_vertex_count sz dat =
     (case dat of Some (Float32Array xs) \<Rightarrow> length xs div sz | _ \<Rightarrow> 0)"

text \<open>
  The attribute pointers that \<open>render\<close> sets, and the arrays a draw gets from them:
  three components from the position buffer or two from the texCoord buffer.
\<close>

definition attrib_ok :: "handle \<Rightarrow> handle \<Rightarrow> int \<times> vertex_attrib \<Rightarrow> bool" where
  "attrib_ok pb tb e \<longleftrightarrow>
     (va_buffer (snd e) = Some pb \<and> va_size (snd e) = 3) \<or>
     (va_buffer (snd e) = Some tb \<and> va_size (snd e) = 2)"

definition array_ok :: "int \<times> nat \<times> buffer_data option \<Rightarrow> bool" where
  "array_ok e \<longleftrightarrow>
     snd e = (3, Some (Float32Array posData)) \<or> snd e = (2, Some (Float32Array texCoordData))"

definition draw_arrays_ok :: "program_info \<Rightarrow> draw_call \<Rightarrow> bool" where
  "draw_arrays_ok info d \<longleftrightarrow>
     list_all array_ok (dc_arrays d) \<and>
     (aPos info < 0 \<or> aPos info = aTexCoord info \<or>
      map_of (dc_arrays d) (aPos info) = Some (3, Some (Float32Array posData)))"

definition arrays_inv :: "app_state \<Rightarrow> bool" where
  "arrays_inv s \<longleftrightarrow>
     list_all (attrib_ok 4 5) (vertex_attribs (gl s)) \<and>
     list_all (draw_arrays_ok (programInfo s)) (draws (gl s))"

text \<open>
  Three drivers: one on which every shader compiles and every program links, one whose
  compiler rejects everything with a given diagnostic, one whose linker does.
\<close>

definition demo_platform :: platform where
  "demo_platform =
     \<lparr>webgl_supported = True,
      compile_result = (\<lambda>ty src. (True, [])),
      link_result = (\<lambda>shs. (True, [])),
      attrib_location = (\<lambda>name. if name = ''aPos'' then 0 else if name = ''aTexCoord'' then 1 else -1)\<rparr>"

definition compile_fail_platform :: "string \<Rightarrow> platform" where
  "compile_fail_platform msg = demo_platform\<lparr>compile_result := (\<lambda>ty src. (False, msg))\<rparr>"

definition link_fail_platform :: "string \<Rightarrow> platform" where
  "link_fail_platform msg = demo_platform\<lparr>link_result := (\<lambda>shs. (False, msg))\<rparr>"

text \<open>The context of \<open>main\<close> at the call of \<open>createProgram\<close>, and the state after \<open>main\<close>.\<close>

definition two_shaders :: "platform \<Rightarrow> gl_context" where
  "two_shaders pf =
     snd (loadShader (snd (loadShader (getContext pf) VERTEX_SHADER vertexShaderSource))
            FRAGMENT_SHADER fragmentShaderSource)"

definition demo_start :: app_state where
  "demo_start = projr (main demo_platform)"

section \<open>Properties\<close>

subsection \<open>Association lists with a fresh key\<close>

lemma update_fresh: "map_of al k = None \<Longrightarrow> AList.update k v al = al @ [(k, v)]"
  by (induction al) (auto split: if_splits)

lemma map_entry_snoc:
  "map_of al k = None \<Longrightarrow> AList.map_entry k f (al @ [(k, v)]) = al @ [(k, f v)]"
  by (induction al) (auto split: if_splits)

lemma delete_snoc: "map_of al k = None \<Longrightarrow> AList.delete k (al @ [(k, v)]) = al"
  by (induction al) (auto split: if_splits)

subsection \<open>The two helpers, step by step\<close>

lemma loadShader_eq:
  assumes "map_of (shaders g) (next_handle g) = None"
    and "\<not> list_ex (\<lambda>(p, ob). next_handle g \<in> set (pr_attached ob)) (programs g)"
  shows "loadShader g ty src =
     (if fst (compile_result (driver g) ty src)
      then (Some (next_handle g),
            g\<lparr>next_handle := Suc (next_handle g),
              shaders := shaders g @
                [(next_handle g, \<lparr>sh_type = ty, sh_source = src, sh_compiled = True,
                    sh_info_log = snd (compile_result (driver g) ty src)\<rparr>)]\<rparr>)
      else (None,
            g\<lparr>next_handle := Suc (next_handle g),
              console_errors := console_errors g @
                [(''Error compiling shader'', snd (compile_result (driver g) ty src))]\<rparr>))"
  using assms
  by (simp add: loadShader_def gl_createShader_def gl_shaderSource_def gl_compileShader_def
      gl_getShaderParameter_COMPILE_STATUS_def gl_getShaderInfoLog_def gl_deleteShader_def
      console_error_def update_fresh map_entry_snoc delete_snoc Let_def map_add_def)

lemma createProgram_eq:
  assumes "map_of (programs g) (next_handle g) = None"
    and "current_program g \<noteq> Some (next_handle g)"
    and "map_of (shaders g) vs = Some v" and "map_of (shaders g) fs = Some f"
  shows "createProgram g vs fs =
     (if fst (link_result (driver g) [v, f])
      then (Some (next_handle g),
            g\<lparr>next_handle := Suc (next_handle g),
              programs := programs g @
                [(next_handle g, \<lparr>pr_attached = [vs, fs], pr_linked = True,
                    pr_info_log = snd (link_result (driver g) [v, f])\<rparr>)]\<rparr>)
      else (None,
            g\<lparr>next_handle := Suc (next_handle g),
              console_errors := console_errors g @
                [(''Error linking program'', snd (link_result (driver g) [v, f]))]\<rparr>))"
  using assms
  by (simp add: createProgram_def gl_createProgram_def gl_attachShader_def gl_linkProgram_def
      gl_getProgramParameter_LINK_STATUS_def gl_getProgramInfoLog_def gl_deleteProgram_def
      console_error_def attached_shaders_def List.map_filter_def
      update_fresh map_entry_snoc delete_snoc Let_def map_add_def)

subsection \<open>What \<open>main\<close> builds\<close>

lemma make_sliders_eq: "make_sliders = replicate 7 new_slider"
  by (simp add: make_sliders_def upt_rec numeral_eq_Suc)

lemma setup_buffers_eq:
  "buffers g = [] \<Longrightarrow> setup_buffers g =
     ((next_handle g, Suc (next_handle g), Suc (Suc (next_handle g))),
      g\<lparr>next_handle := Suc (Suc (Suc (next_handle g))),
        buffers := [(next_handle g, Some (Float32Array posData)),
                    (Suc (next_handle g), Some (Float32Array texCoordData)),
                    (Suc (Suc (next_handle g)), Some (Uint16Array indexData))],
        array_buffer_binding := Some (Suc (next_handle g)),
        element_array_buffer_binding := Some (Suc (Suc (next_handle g)))\<rparr>)"
  by (simp add: setup_buffers_def gl_createBuffer_def gl_bindBuffer_def gl_bufferData_def
      bound_buffer_def Let_def)

lemma load_texture_eq:
  "textures g = [] \<Longrightarrow> load_texture g =
     (next_handle g,
      g\<lparr>next_handle := Suc (next_handle g),
        textures := [(next_handle g, placeholder_texture)],
        texture_binding_2d := Some (next_handle g)\<rparr>)"
  by (simp add: load_texture_def gl_createTexture_def gl_bindTexture_def gl_texParameteri_def
      gl_texImage2D_def set_tex_parameter_def placeholder_texture_def Let_def)

lemma main_Inr:
  assumes "main pf = Inr s"
  shows "\<exists>g. s = render
          \<lparr>sliders = replicate 7 new_slider, dragging = None,
           image_el = \<lparr>offsetLeft = 0, offsetTop = 0, width = 0, height = 0\<rparr>,
           gl = g,
           programInfo = \<lparr>aPos = attrib_location pf ''aPos'',
                           aTexCoord = attrib_location pf ''aTexCoord''\<rparr>,
           posBuffer = 4, texCoordBuffer = 5, indexBuffer = 6, texture = 7\<rparr>
        \<and> buffers g = [(4, Some (Float32Array posData)), (5, Some (Float32Array texCoordData)),
                       (6, Some (Uint16Array indexData))]
        \<and> textures g = [(7, placeholder_texture)]
        \<and> draws g = [] \<and> vertex_attribs g = [] \<and> console_errors g = []"
  using assms
  by (auto simp add: main_def getContext_def loadShader_eq createProgram_eq
      setup_buffers_eq load_texture_eq gl_useProgram_def gl_getAttribLocation_def
      make_sliders_eq Let_def map_add_def eval_nat_numeral
      split: if_splits prod.splits option.splits)

lemma main_demo: "main demo_platform = Inr demo_start"
proof -
  have "\<exists>s. main demo_platform = Inr s"
    by (simp add: main_def demo_platform_def getContext_def loadShader_eq createProgram_eq
        Let_def map_add_def split: prod.splits)
  then show ?thesis
    by (auto simp add: demo_start_def)
qed

subsection \<open>\<open>render\<close> and the handlers\<close>

lemma render_fields [simp]:
  "sliders (render s) = sliders s" "dragging (render s) = dragging s"
  "image_el (render s) = image_el s" "programInfo (render s) = programInfo s"
  "posBuffer (render s) = posBuffer s" "texCoordBuffer (render s) = texCoordBuffer s"
  "indexBuffer (render s) = indexBuffer s" "texture (render s) = texture s"
  by (simp_all add: render_def Let_def)

lemma render_gl_frame [simp]:
  "buffers (gl (render s)) = buffers (gl s)" "textures (gl (render s)) = textures (gl s)"
  "console_errors (gl (render s)) = console_errors (gl s)"
  by (simp_all add: render_def Let_def gl_bindBuffer_def gl_vertexAttribPointer_def
      gl_enableVertexAttribArray_def gl_bindTexture_def gl_drawElements_def)

lemma map_of_enabled_arrays:
  "map_of al k = Some a \<Longrightarrow> va_enabled a \<Longrightarrow>
   map_of (map (\<lambda>(i, a). (i, G a)) (filter (\<lambda>(i, a). va_enabled a) al)) k = Some (G a)"
  by (induction al) (auto split: if_splits)

lemma render_draws:
  "\<exists>d. draws (gl (render s)) = draws (gl s) @ [d] \<and>
       dc_mode d = TRIANGLES \<and> dc_count d = 18 \<and> dc_type d = UNSIGNED_SHORT \<and> dc_offset d = 0 \<and>
       dc_elements d = buffer_contents (gl s) (indexBuffer s) \<and>
       dc_texture d = map_of (textures (gl s)) (texture s) \<and>
       (aTexCoord (programInfo s) < 0 \<or>
        map_of (dc_arrays d) (aTexCoord (programInfo s)) =
          Some (2, buffer_contents (gl s) (texCoordBuffer s)))"
proof (cases "aTexCoord (programInfo s) < 0")
  case True
  then show ?thesis
    by (simp add: render_def Let_def gl_bindBuffer_def gl_vertexAttribPointer_def
      gl_enableVertexAttribArray_def gl_bindTexture_def gl_drawElements_def buffer_contents_def)
next
  case False
  let ?g = "gl_enableVertexAttribArray
       (gl_vertexAttribPointer
         (gl_bindBuffer
           (gl_enableVertexAttribArray
             (gl_vertexAttribPointer (gl_bindBuffer (gl s) ARRAY_BUFFER (Some (posBuffer s)))
               (aPos (programInfo s)) 3 FLOAT False 0 0)
             (aPos (programInfo s)))
           ARRAY_BUFFER (Some (texCoordBuffer s)))
         (aTexCoord (programInfo s)) 2 FLOAT False 0 0)
       (aTexCoord (programInfo s))"
  let ?h = "gl_bindTexture (gl_bindBuffer ?g ELEMENT_ARRAY_BUFFER (Some (indexBuffer s)))
         TEXTURE_2D (Some (texture s))"
  have m: "map_of (vertex_attribs ?g) (aTexCoord (programInfo s)) =
      Some \<lparr>va_buffer = Some (texCoordBuffer s), va_size = 2, va_enabled = True\<rparr>"
    using False
    by (simp add: gl_bindBuffer_def gl_vertexAttribPointer_def gl_enableVertexAttribArray_def
        get_vertex_attrib_def update_conv')
  have b: "buffers ?g = buffers (gl s)" "textures ?g = textures (gl s)" "draws ?g = draws (gl s)"
    by (simp_all add: gl_bindBuffer_def gl_vertexAttribPointer_def gl_enableVertexAttribArray_def)
  have r: "gl (render s) = gl_drawElements ?h TRIANGLES 18 UNSIGNED_SHORT 0"
    by (simp add: render_def Let_def)
  show ?thesis
    unfolding r
    using map_of_enabled_arrays [OF m, of "\<lambda>a. (va_size a, Option.bind (va_buffer a)
        (buffer_contents ?h))"] b
    by (simp add: gl_drawElements_def gl_bindTexture_def gl_bindBuffer_def buffer_contents_def
        case_prod_unfold)
qed

lemma step_handles [simp]:
  "programInfo (step s e) = programInfo s" "posBuffer (step s e) = posBuffer s"
  "texCoordBuffer (step s e) = texCoordBuffer s" "indexBuffer (step s e) = indexBuffer s"
  "texture (step s e) = texture s"
  by (cases e; simp add: onmousedown_def onmouseup_def onmousemove_def image_onload_def Let_def
       split: option.splits)+

lemma run_snoc: "run (evs @ [e]) s = step (run evs s) e"
  by (simp add: run_def)

lemma run_handles_conj:
  "programInfo (run evs s) = programInfo s \<and> posBuffer (run evs s) = posBuffer s \<and>
   texCoordBuffer (run evs s) = texCoordBuffer s \<and> indexBuffer (run evs s) = indexBuffer s \<and>
   texture (run evs s) = texture s"
  by (induction evs rule: rev_induct) (simp_all add: run_snoc, simp add: run_def)

lemma run_handles [simp]:
  "programInfo (run evs s) = programInfo s" "posBuffer (run evs s) = posBuffer s"
  "texCoordBuffer (run evs s) = texCoordBuffer s" "indexBuffer (run evs s) = indexBuffer s"
  "texture (run evs s) = texture s"
  using run_handles_conj [of evs s] by simp_all

subsection \<open>The geometry is fixed for the whole session\<close>

lemma pipeline_inv_render:
  assumes "posBuffer s = 4" "texCoordBuffer s = 5" "indexBuffer s = 6"
    "buffers (gl s) = [(4, Some (Float32Array posData)), (5, Some (Float32Array texCoordData)),
                       (6, Some (Uint16Array indexData))]"
    "list_all (good_draw (programInfo s)) (draws (gl s))"
  shows "pipeline_inv (render s)"
proof -
  from render_draws [of s] obtain d where d: "draws (gl (render s)) = draws (gl s) @ [d]"
    "dc_mode d = TRIANGLES" "dc_count d = 18" "dc_type d = UNSIGNED_SHORT" "dc_offset d = 0"
    "dc_elements d = buffer_contents (gl s) (indexBuffer s)"
    "aTexCoord (programInfo s) < 0 \<or>
        map_of (dc_arrays d) (aTexCoord (programInfo s)) =
          Some (2, buffer_contents (gl s) (texCoordBuffer s))"
    by blast
  from assms have c: "buffer_contents (gl s) (indexBuffer s) = Some (Uint16Array indexData)"
    "buffer_contents (gl s) (texCoordBuffer s) = Some (Float32Array texCoordData)"
    by (simp_all add: buffer_contents_def)
  from d c have "good_draw (programInfo s) d"
    by (simp add: good_draw_def)
  with assms d(1) show ?thesis
    by (simp add: pipeline_inv_def)
qed

lemma pipeline_inv_onmousemove: "pipeline_inv s \<Longrightarrow> pipeline_inv (onmousemove x y s)"
  by (auto simp add: onmousemove_def Let_def pipeline_inv_def [of s] split: option.splits
      intro!: pipeline_inv_render)

lemma pipeline_inv_image_onload: "pipeline_inv s \<Longrightarrow> pipeline_inv (image_onload w h s)"
  unfolding image_onload_def Let_def
  by (rule pipeline_inv_render)
     (simp_all add: pipeline_inv_def gl_bindTexture_def gl_texImage2D_image_def split: option.splits)

lemma pipeline_inv_step: "pipeline_inv s \<Longrightarrow> pipeline_inv (step s e)"
  by (cases e)
     (simp_all add: pipeline_inv_onmousemove pipeline_inv_image_onload,
      simp_all add: onmousedown_def onmouseup_def pipeline_inv_def)

lemma pipeline_inv_run: "pipeline_inv s \<Longrightarrow> pipeline_inv (run evs s)"
  by (induction evs rule: rev_induct) (simp_all add: run_snoc pipeline_inv_step, simp add: run_def)

lemma pipeline_inv_main: "main pf = Inr s \<Longrightarrow> pipeline_inv s"
proof -
  assume "main pf = Inr s"
  from main_Inr [OF this] obtain g where
    s: "s = render
          \<lparr>sliders = replicate 7 new_slider, dragging = None,
           image_el = \<lparr>offsetLeft = 0, offsetTop = 0, width = 0, height = 0\<rparr>,
           gl = g,
           programInfo = \<lparr>aPos = attrib_location pf ''aPos'',
                           aTexCoord = attrib_location pf ''aTexCoord''\<rparr>,
           posBuffer = 4, texCoordBuffer = 5, indexBuffer = 6, texture = 7\<rparr>"
    and g: "buffers g = [(4, Some (Float32Array posData)), (5, Some (Float32Array texCoordData)),
                       (6, Some (Uint16Array indexData))]" "draws g = []"
    by blast
  show "pipeline_inv s"
    unfolding s by (rule pipeline_inv_render) (simp_all add: g)
qed

lemma main_page:
  assumes "main pf = Inr s"
  shows "sliders s = replicate 7 new_slider" "dragging s = None"
    "image_el s = \<lparr>offsetLeft = 0, offsetTop = 0, width = 0, height = 0\<rparr>"
    "programInfo s = \<lparr>aPos = attrib_location pf ''aPos'',
                     aTexCoord = attrib_location pf ''aTexCoord''\<rparr>"
    "posBuffer s = 4" "texCoordBuffer s = 5" "indexBuffer s = 6" "texture s = 7"
  using main_Inr [OF assms] by auto

subsection \<open>Evaluating a session of the demo platform\<close>

lemma demo_start_page:
  "sliders demo_start = replicate 7 new_slider" "dragging demo_start = None"
  "image_el demo_start = \<lparr>offsetLeft = 0, offsetTop = 0, width = 0, height = 0\<rparr>"
  using main_page(1-3) [OF main_demo] by simp_all

lemma replicate_numerals:
  "replicate 7 x = [x, x, x, x, x, x, x]" "replicate 6 x = [x, x, x, x, x, x]"
  by (simp_all add: numeral_eq_Suc)

lemma upt_8: "[0..<8] = [0, 1, 2, 3, 4, 5, 6, 7]"
  by (simp add: upt_rec)

lemma sliders_onmousemove:
  "sliders (onmousemove x y s) =
     (case dragging s of None \<Rightarrow> sliders s
      | Some d \<Rightarrow> (sliders s)[d := (sliders s ! d)
           \<lparr>posInImageXPercent := Some (js_div (x - offsetLeft (image_el s)) (width (image_el s))),
            posInImageYPercent := Some (js_div (y - offsetTop (image_el s)) (height (image_el s))),
            style_left := max (offsetLeft (image_el s))
                 (min (offsetLeft (image_el s) + int (width (image_el s))) x) - 5,
            style_top := Some (max (offsetTop (image_el s))
                 (min (offsetTop (image_el s) + int (height (image_el s))) y) - 5)\<rparr>])"
  by (simp add: onmousemove_def Let_def split: option.splits)

lemma onmousemove_page [simp]:
  "dragging (onmousemove x y s) = dragging s" "image_el (onmousemove x y s) = image_el s"
  "buffers (gl (onmousemove x y s)) = buffers (gl s)"
  by (simp_all add: onmousemove_def Let_def split: option.splits)

lemma image_onload_page [simp]:
  "sliders (image_onload w h s) = sliders s" "dragging (image_onload w h s) = dragging s"
  "image_el (image_onload w h s) = (image_el s)\<lparr>width := w, height := h\<rparr>"
  by (simp_all add: image_onload_def Let_def)

lemma run_Nil [simp]: "run [] s = s"
  by (simp add: run_def)

lemma run_Cons [simp]: "run (e # evs) s = run evs (step s e)"
  by (simp add: run_def)

lemma texCoords_demo:
  "texCoords (run evs demo_start) =
     [(0, 1), (1/2, 1), (0, 1/2), (1/2, 1/2), (1, 1), (0, 0), (1/2, 0), (1, 1/2)]"
  using pipeline_inv_run [OF pipeline_inv_main [OF main_demo], of evs]
  by (simp add: pipeline_inv_def texCoords_def buffer_contents_def texCoordData_def)

lemma getContext_fresh:
  "map_of (shaders (getContext pf)) (next_handle (getContext pf)) = None"
  "\<not> list_ex (\<lambda>(p, ob). next_handle (getContext pf) \<in> set (pr_attached ob))
       (programs (getContext pf))"
  by (simp_all add: getContext_def)

lemma two_shaders_eq:
  "\<forall>ty src. fst (compile_result pf ty src) \<Longrightarrow> two_shaders pf =
     (getContext pf)\<lparr>next_handle := 3,
        shaders := [(1, \<lparr>sh_type = VERTEX_SHADER, sh_source = vertexShaderSource,
                         sh_compiled = True,
                         sh_info_log = snd (compile_result pf VERTEX_SHADER vertexShaderSource)\<rparr>),
                    (2, \<lparr>sh_type = FRAGMENT_SHADER, sh_source = fragmentShaderSource,
                         sh_compiled = True,
                         sh_info_log = snd (compile_result pf FRAGMENT_SHADER fragmentShaderSource)\<rparr>)]\<rparr>"
  by (simp add: two_shaders_def loadShader_eq getContext_def eval_nat_numeral)

lemma two_shaders_link_fail:
  "two_shaders (link_fail_platform msg) =
     \<lparr>driver = link_fail_platform msg, next_handle = 3,
      shaders = [(1, \<lparr>sh_type = VERTEX_SHADER, sh_source = vertexShaderSource,
                       sh_compiled = True, sh_info_log = []\<rparr>),
                 (2, \<lparr>sh_type = FRAGMENT_SHADER, sh_source = fragmentShaderSource,
                       sh_compiled = True, sh_info_log = []\<rparr>)],
      programs = [], buffers = [], textures = [],
      array_buffer_binding = None, element_array_buffer_binding = None,
      texture_binding_2d = None, current_program = None, vertex_attribs = [],
      draws = [], console_errors = []\<rparr>"
  by (simp add: two_shaders_eq link_fail_platform_def demo_platform_def)
     (simp add: getContext_def)

subsection \<open>The attribute arrays of every draw\<close>

lemma list_all_update:
  "list_all Q al \<Longrightarrow> Q (k, v) \<Longrightarrow> list_all Q (AList.update k v al)"
  by (induction al) auto

lemma pointer_enable_ok:
  assumes "list_all (attrib_ok pb tb) (vertex_attribs g)"
    and "(array_buffer_binding g = Some pb \<and> sz = 3) \<or> (array_buffer_binding g = Some tb \<and> sz = 2)"
  shows "list_all (attrib_ok pb tb)
     (vertex_attribs (gl_enableVertexAttribArray (gl_vertexAttribPointer g idx sz ty n st off) idx))"
proof (cases "idx < 0")
  case True
  with assms(1) show ?thesis
    by (simp add: gl_enableVertexAttribArray_def gl_vertexAttribPointer_def)
next
  case False
  let ?v = "(get_vertex_attrib g idx)\<lparr>va_buffer := array_buffer_binding g, va_size := sz\<rparr>"
  have v: "attrib_ok pb tb (idx, ?v)" "attrib_ok pb tb (idx, ?v\<lparr>va_enabled := True\<rparr>)"
    using assms(2) by (auto simp add: attrib_ok_def)
  have "vertex_attribs (gl_enableVertexAttribArray (gl_vertexAttribPointer g idx sz ty n st off) idx)
      = AList.update idx (?v\<lparr>va_enabled := True\<rparr>) (AList.update idx ?v (vertex_attribs g))"
    using False
    by (simp add: gl_enableVertexAttribArray_def gl_vertexAttribPointer_def get_vertex_attrib_def
        update_conv')
  with assms(1) v show ?thesis
    by (simp add: list_all_update)
qed

lemma arrays_of_ok_attribs:
  assumes "list_all (attrib_ok pb tb) al"
    and "bc pb = Some (Float32Array posData)" and "bc tb = Some (Float32Array texCoordData)"
  shows "list_all array_ok
     (map (\<lambda>(i, a). (i, va_size a, Option.bind (va_buffer a) bc))
        (filter (\<lambda>(i, a). va_enabled a) al))"
  using assms by (induction al) (auto simp add: attrib_ok_def array_ok_def)

lemma bindBuffer_array:
  "vertex_attribs (gl_bindBuffer g target b) = vertex_attribs g"
  "array_buffer_binding (gl_bindBuffer g ARRAY_BUFFER b) = b"
  by (simp_all add: gl_bindBuffer_def)

lemma render_draw_arrays:
  assumes "list_all (attrib_ok (posBuffer s) (texCoordBuffer s)) (vertex_attribs (gl s))"
    and "buffer_contents (gl s) (posBuffer s) = Some (Float32Array posData)"
    and "buffer_contents (gl s) (texCoordBuffer s) = Some (Float32Array texCoordData)"
  shows "\<exists>d. draws (gl (render s)) = draws (gl s) @ [d] \<and> draw_arrays_ok (programInfo s) d \<and>
     list_all (attrib_ok (posBuffer s) (texCoordBuffer s)) (vertex_attribs (gl (render s)))"
proof -
  let ?g1 = "gl_enableVertexAttribArray
       (gl_vertexAttribPointer (gl_bindBuffer (gl s) ARRAY_BUFFER (Some (posBuffer s)))
          (aPos (programInfo s)) 3 FLOAT False 0 0)
       (aPos (programInfo s))"
  let ?g2 = "gl_enableVertexAttribArray
       (gl_vertexAttribPointer (gl_bindBuffer ?g1 ARRAY_BUFFER (Some (texCoordBuffer s)))
          (aTexCoord (programInfo s)) 2 FLOAT False 0 0)
       (aTexCoord (programInfo s))"
  let ?h = "gl_bindTexture (gl_bindBuffer ?g2 ELEMENT_ARRAY_BUFFER (Some (indexBuffer s)))
         TEXTURE_2D (Some (texture s))"
  have a1: "list_all (attrib_ok (posBuffer s) (texCoordBuffer s)) (vertex_attribs ?g1)"
    by (rule pointer_enable_ok) (simp_all only: bindBuffer_array assms(1), simp)
  have a2: "list_all (attrib_ok (posBuffer s) (texCoordBuffer s)) (vertex_attribs ?g2)"
    by (rule pointer_enable_ok) (simp_all only: bindBuffer_array a1, simp)
  have frame: "vertex_attribs ?h = vertex_attribs ?g2" "buffers ?h = buffers (gl s)"
    "draws ?h = draws (gl s)"
    by (simp_all add: gl_bindBuffer_def gl_bindTexture_def gl_vertexAttribPointer_def
        gl_enableVertexAttribArray_def)
  have bc: "buffer_contents ?h = buffer_contents (gl s)"
    by (rule ext) (simp add: buffer_contents_def frame)
  have r: "gl (render s) = gl_drawElements ?h TRIANGLES 18 UNSIGNED_SHORT 0"
    by (simp add: render_def Let_def)
  let ?arrays = "map (\<lambda>(i, a). (i, va_size a, Option.bind (va_buffer a) (buffer_contents ?h)))
        (filter (\<lambda>(i, a). va_enabled a) (vertex_attribs ?h))"
  have all: "list_all array_ok ?arrays"
    unfolding frame(1) bc by (rule arrays_of_ok_attribs [OF a2 assms(2) assms(3)])
  have pos: "aPos (programInfo s) < 0 \<or> aPos (programInfo s) = aTexCoord (programInfo s) \<or>
      map_of ?arrays (aPos (programInfo s)) = Some (3, Some (Float32Array posData))"
  proof (cases "aPos (programInfo s) < 0 \<or> aPos (programInfo s) = aTexCoord (programInfo s)")
    case True
    then show ?thesis by blast
  next
    case False
    then have m: "map_of (vertex_attribs ?h) (aPos (programInfo s)) =
        Some \<lparr>va_buffer = Some (posBuffer s), va_size = 3, va_enabled = True\<rparr>"
      unfolding frame(1)
      by (simp add: gl_bindBuffer_def gl_vertexAttribPointer_def gl_enableVertexAttribArray_def
          get_vertex_attrib_def update_conv')
    from map_of_enabled_arrays [OF m, of "\<lambda>a. (va_size a, Option.bind (va_buffer a)
        (buffer_contents ?h))"]
    show ?thesis
      by (simp add: bc assms(2))
  qed
  have d: "draws (gl (render s)) = draws (gl s) @
      [\<lparr>dc_mode = TRIANGLES, dc_count = 18, dc_type = UNSIGNED_SHORT, dc_offset = 0,
        dc_program = current_program ?h,
        dc_elements = Option.bind (element_array_buffer_binding ?h) (buffer_contents ?h),
        dc_arrays = ?arrays,
        dc_texture = Option.bind (texture_binding_2d ?h) (map_of (textures ?h))\<rparr>]"
    unfolding r by (simp add: gl_drawElements_def frame(3))
  have va: "vertex_attribs (gl (render s)) = vertex_attribs ?g2"
    unfolding r by (simp add: gl_drawElements_def frame(1))
  show ?thesis
    unfolding d va using all pos a2
    by (simp add: draw_arrays_ok_def)
qed

lemma arrays_inv_render:
  assumes "pipeline_inv s" and "arrays_inv s"
  shows "arrays_inv (render s)"
proof -
  from assms(1) have h: "posBuffer s = 4" "texCoordBuffer s = 5"
    and c: "buffer_contents (gl s) (posBuffer s) = Some (Float32Array posData)"
      "buffer_contents (gl s) (texCoordBuffer s) = Some (Float32Array texCoordData)"
    by (simp_all add: pipeline_inv_def buffer_contents_def)
  from assms(2) have a: "list_all (attrib_ok (posBuffer s) (texCoordBuffer s)) (vertex_attribs (gl s))"
    by (simp add: arrays_inv_def h)
  from render_draw_arrays [OF a c] obtain d where
    "draws (gl (render s)) = draws (gl s) @ [d]" "draw_arrays_ok (programInfo s) d"
    "list_all (attrib_ok (posBuffer s) (texCoordBuffer s)) (vertex_attribs (gl (render s)))"
    by blast
  with assms(2) show ?thesis
    by (simp add: arrays_inv_def h)
qed

lemma inv_cong:
  assumes "gl s' = gl s" "programInfo s' = programInfo s" "posBuffer s' = posBuffer s"
    "texCoordBuffer s' = texCoordBuffer s" "indexBuffer s' = indexBuffer s"
  shows "pipeline_inv s' = pipeline_inv s" "arrays_inv s' = arrays_inv s"
  using assms by (simp_all add: pipeline_inv_def arrays_inv_def)

lemma arrays_inv_step:
  assumes "pipeline_inv s" and "arrays_inv s"
  shows "arrays_inv (step s e)"
proof (cases e)
  case (SliderMouseDown i)
  with assms(2) show ?thesis
    by (simp add: onmousedown_def arrays_inv_def)
next
  case (BodyMouseMove x y)
  show ?thesis
  proof (cases "dragging s")
    case None
    with assms(2) BodyMouseMove show ?thesis by (simp add: onmousemove_def)
  next
    case (Some d)
    have "arrays_inv (render (s\<lparr>sliders := xs\<rparr>))" for xs
      by (rule arrays_inv_render) (simp_all add: inv_cong [of "s\<lparr>sliders := xs\<rparr>" s] assms)
    with Some BodyMouseMove show ?thesis
      by (simp add: onmousemove_def Let_def)
  qed
next
  case BodyMouseUp
  with assms(2) show ?thesis
    by (simp add: onmouseup_def arrays_inv_def)
next
  case (ImageOnload w h)
  let ?s = "s\<lparr>image_el := (image_el s)\<lparr>width := w, height := h\<rparr>,
      gl := gl_texImage2D_image (gl_bindTexture (gl s) TEXTURE_2D (Some (texture s)))
          TEXTURE_2D 0 RGBA RGBA UNSIGNED_BYTE (w, h)\<rparr>"
  have p: "pipeline_inv ?s"
    using assms(1)
    by (simp add: pipeline_inv_def gl_bindTexture_def gl_texImage2D_image_def split: option.splits)
  have a: "arrays_inv ?s"
    using assms(2)
    by (simp add: arrays_inv_def gl_bindTexture_def gl_texImage2D_image_def split: option.splits)
  from arrays_inv_render [OF p a] ImageOnload show ?thesis
    by (simp add: image_onload_def Let_def)
qed

lemma arrays_inv_run:
  "pipeline_inv s \<Longrightarrow> arrays_inv s \<Longrightarrow> arrays_inv (run evs s)"
proof (induction evs rule: rev_induct)
  case Nil
  then show ?case by (simp add: run_def)
next
  case (snoc e evs)
  then show ?case
    by (simp add: run_snoc arrays_inv_step pipeline_inv_run)
qed

lemma arrays_inv_main: "main pf = Inr s \<Longrightarrow> arrays_inv s"
proof -
  assume "main pf = Inr s"
  from main_Inr [OF this] obtain g where
    s: "s = render
          \<lparr>sliders = replicate 7 new_slider, dragging = None,
           image_el = \<lparr>offsetLeft = 0, offsetTop = 0, width = 0, height = 0\<rparr>,
           gl = g,
           programInfo = \<lparr>aPos = attrib_location pf ''aPos'',
                           aTexCoord = attrib_location pf ''aTexCoord''\<rparr>,
           posBuffer = 4, texCoordBuffer = 5, indexBuffer = 6, texture = 7\<rparr>"
      (is "s = render ?s0")
    and g: "buffers g = [(4, Some (Float32Array posData)), (5, Some (Float32Array texCoordData)),
                       (6, Some (Uint16Array indexData))]" "draws g = []" "vertex_attribs g = []"
    by blast
  have a: "list_all (attrib_ok (posBuffer ?s0) (texCoordBuffer ?s0)) (vertex_attribs (gl ?s0))"
    by (simp add: g)
  have c: "buffer_contents (gl ?s0) (posBuffer ?s0) = Some (Float32Array posData)"
      "buffer_contents (gl ?s0) (texCoordBuffer ?s0) = Some (Float32Array texCoordData)"
    by (simp_all add: g buffer_contents_def)
  from render_draw_arrays [OF a c] obtain d where
    "draws (gl (render ?s0)) = draws (gl ?s0) @ [d]" "draw_arrays_ok (programInfo ?s0) d"
    "list_all (attrib_ok (posBuffer ?s0) (texCoordBuffer ?s0)) (vertex_attribs (gl (render ?s0)))"
    by blast
  then show "arrays_inv s"
    unfolding s by (simp add: arrays_inv_def g)
qed

section \<open>The claims\<close>

text \<open>
  C1. The claim: on every marker drag with positive image dimensions the pointer is
  clamped to the image box before the fractions are computed, so the stored fractions lie
  in \<open>[0,1]\<close> and a drag outside the box stores what a drag to the nearest boundary
  point stores. The handler computes the clamp, but only for the marker's \<open>style.left\<close>
  and \<open>style.top\<close>; the fractions are taken from the unclamped pointer. On a loaded
  400x400 image, a drag of marker 0 to \<open>(500, 500)\<close> stores \<open>(5/4, 5/4)\<close>, while the
  marker is displayed at the clamped point (\<open>395px\<close>, the corner \<open>400\<close> less the
  radius) and a drag to the corner \<open>(400, 400)\<close> itself stores \<open>(1, 1)\<close>.
\<close>

theorem drag_outside_image_stores_unclamped_fraction:
  "main demo_platform = Inr demo_start \<and>
   marker_fractions (run [ImageOnload 400 400, SliderMouseDown 0, BodyMouseMove 500 500] demo_start)
     = (Some (Num (5/4)), Some (Num (5/4))) # replicate 6 (None, None) \<and>
   marker_positions (run [ImageOnload 400 400, SliderMouseDown 0, BodyMouseMove 500 500] demo_start)
     = (395, Some 395) # replicate 6 (30, None) \<and>
   marker_fractions (run [ImageOnload 400 400, SliderMouseDown 0, BodyMouseMove 400 400] demo_start)
     = (Some (Num 1), Some (Num 1)) # replicate 6 (None, None)"
  by (simp add: main_demo marker_fractions_def marker_positions_def sliders_onmousemove
      onmousedown_def demo_start_page js_div_def new_slider_def replicate_numerals)

text \<open>
  C2, as stated, fails. The claim: in every reachable state the texCoord buffer that the
  draw uses is a function of the seven marker fractions, each vertex slot holding the
  fraction pair of the marker it is bound to. The script has no such binding: the buffer
  is filled once in \<open>main\<close> and no handler writes to it. After a drag of marker 0 to
  \<open>(100, 300)\<close> on a 400x400 image the only fraction pair any marker has is
  \<open>(1/4, 3/4)\<close>, and the eight vertex slots hold what they held before the drag, the
  constants of \<open>main\<close>.
\<close>

theorem texCoords_ignore_marker_drag:
  "main demo_platform = Inr demo_start \<and>
   marker_fractions (run [ImageOnload 400 400, SliderMouseDown 0, BodyMouseMove 100 300] demo_start)
     = (Some (Num (1/4)), Some (Num (3/4))) # replicate 6 (None, None) \<and>
   texCoords (run [ImageOnload 400 400, SliderMouseDown 0, BodyMouseMove 100 300] demo_start)
     = [(0, 1), (1/2, 1), (0, 1/2), (1/2, 1/2), (1, 1), (0, 0), (1/2, 0), (1, 1/2)] \<and>
   texCoords (run [ImageOnload 400 400, SliderMouseDown 0] demo_start)
     = [(0, 1), (1/2, 1), (0, 1/2), (1/2, 1/2), (1, 1), (0, 0), (1/2, 0), (1, 1/2)]"
  using texCoords_demo [of "[ImageOnload 400 400, SliderMouseDown 0, BodyMouseMove 100 300]"]
    texCoords_demo [of "[ImageOnload 400 400, SliderMouseDown 0]"]
  by (simp add: main_demo marker_fractions_def sliders_onmousemove
      onmousedown_def demo_start_page js_div_def new_slider_def replicate_numerals)

text \<open>
  C2, amended: in every state reached from a completed \<open>main\<close> by any events, marker
  drags included, the texCoord buffer is the same object with the sixteen constants
  uploaded by \<open>main\<close>, and every draw reads exactly these as its \<open>aTexCoord\<close>
  array (two components per vertex), when the attribute has a location. The buffer does
  not depend on the markers.
\<close>

theorem texCoord_buffer_fixed_for_session:
  assumes "main pf = Inr s0" and "0 \<le> aTexCoord (programInfo s0)"
  shows "texCoordBuffer (run evs s0) = texCoordBuffer s0 \<and>
         buffer_contents (gl (run evs s0)) (texCoordBuffer s0) = Some (Float32Array texCoordData) \<and>
         texCoords (run evs s0) =
           [(0, 1), (1/2, 1), (0, 1/2), (1/2, 1/2), (1, 1), (0, 0), (1/2, 0), (1, 1/2)] \<and>
         list_all (\<lambda>d. map_of (dc_arrays d) (aTexCoord (programInfo s0)) =
                        Some (2, Some (Float32Array texCoordData)))
           (draws (gl (run evs s0)))"
proof -
  have inv: "pipeline_inv (run evs s0)"
    by (rule pipeline_inv_run [OF pipeline_inv_main [OF assms(1)]])
  have tb: "texCoordBuffer s0 = 5"
    by (rule main_page(6) [OF assms(1)])
  have "list_all (good_draw (programInfo s0)) (draws (gl (run evs s0)))"
    using inv by (simp add: pipeline_inv_def)
  then have dr: "list_all (\<lambda>d. map_of (dc_arrays d) (aTexCoord (programInfo s0)) =
                        Some (2, Some (Float32Array texCoordData))) (draws (gl (run evs s0)))"
    using assms(2) by (simp add: list_all_iff good_draw_def)
  from inv tb dr show ?thesis
    by (simp add: pipeline_inv_def texCoords_def buffer_contents_def texCoordData_def)
qed

text \<open>C2, witness: the demo platform, with a load, a press, a drag and a release.\<close>

theorem texCoord_buffer_fixed_for_session_witness:
  "main demo_platform = Inr demo_start \<and> 0 \<le> aTexCoord (programInfo demo_start) \<and>
   texCoords (run [ImageOnload 400 400, SliderMouseDown 3, BodyMouseMove 7 9, BodyMouseUp] demo_start) =
     [(0, 1), (1/2, 1), (0, 1/2), (1/2, 1/2), (1, 1), (0, 0), (1/2, 0), (1, 1/2)]"
proof -
  have a: "0 \<le> aTexCoord (programInfo demo_start)"
    by (simp add: main_page(4) [OF main_demo] demo_platform_def)
  from texCoord_buffer_fixed_for_session [OF main_demo a,
      of "[ImageOnload 400 400, SliderMouseDown 3, BodyMouseMove 7 9, BodyMouseUp]"]
    main_demo a show ?thesis by simp
qed

text \<open>
  C3, as stated, fails. The claim: a drag delivered while the image has width or height
  zero is rejected, with no division and no change to any marker fraction. The handler
  has no such guard. Right after \<open>main\<close> the image is 0x0; a press on slider 0 and a
  move to \<open>(100, 300)\<close> change the fractions of marker 0 from \<open>undefined\<close> to
  \<open>Infinity\<close>, the value of \<open>100 / 0\<close> and of \<open>300 / 0\<close>.
\<close>

theorem drag_on_unloaded_image_changes_marker:
  "main demo_platform = Inr demo_start \<and>
   image_el (run [SliderMouseDown 0] demo_start) =
     \<lparr>offsetLeft = 0, offsetTop = 0, width = 0, height = 0\<rparr> \<and>
   marker_fractions (run [SliderMouseDown 0] demo_start) = replicate 7 (None, None) \<and>
   marker_fractions (run [SliderMouseDown 0, BodyMouseMove 100 300] demo_start)
     = (Some PosInfinity, Some PosInfinity) # replicate 6 (None, None)"
  by (simp add: main_demo marker_fractions_def sliders_onmousemove
      onmousedown_def demo_start_page js_div_def new_slider_def replicate_numerals)

text \<open>
  C3, amended: on a drag while the image has width or height zero the handler divides
  all the same. The dragged marker gets the two quotients, and the one on a zero-sized
  axis is \<open>Infinity\<close>, \<open>-Infinity\<close> or \<open>NaN\<close>; every other marker is unchanged, and
  so is every buffer of the context, the texCoord buffer among them.
\<close>

theorem drag_on_zero_size_image:
  assumes "dragging s = Some d" and "d < length (sliders s)"
    and "width (image_el s) = 0 \<or> height (image_el s) = 0"
  shows "posInImageXPercent (sliders (onmousemove x y s) ! d)
           = Some (js_div (x - offsetLeft (image_el s)) (width (image_el s))) \<and>
         posInImageYPercent (sliders (onmousemove x y s) ! d)
           = Some (js_div (y - offsetTop (image_el s)) (height (image_el s))) \<and>
         (js_div (x - offsetLeft (image_el s)) (width (image_el s)) \<in> {PosInfinity, NegInfinity, NaN} \<or>
          js_div (y - offsetTop (image_el s)) (height (image_el s)) \<in> {PosInfinity, NegInfinity, NaN}) \<and>
         (sliders (onmousemove x y s))[d := sliders s ! d] = sliders s \<and>
         buffers (gl (onmousemove x y s)) = buffers (gl s)"
  using assms by (auto simp add: sliders_onmousemove js_div_def)

text \<open>
  C3, witness: the state after \<open>main\<close> and a press on slider 0, and a move to
  \<open>(-3, 0)\<close>, which stores \<open>-Infinity\<close> and \<open>NaN\<close>.
\<close>

theorem drag_on_zero_size_image_witness:
  "dragging (run [SliderMouseDown 0] demo_start) = Some 0 \<and>
   0 < length (sliders (run [SliderMouseDown 0] demo_start)) \<and>
   (width (image_el (run [SliderMouseDown 0] demo_start)) = 0 \<or>
    height (image_el (run [SliderMouseDown 0] demo_start)) = 0) \<and>
   posInImageXPercent (sliders (onmousemove (-3) 0 (run [SliderMouseDown 0] demo_start)) ! 0)
     = Some NegInfinity \<and>
   posInImageYPercent (sliders (onmousemove (-3) 0 (run [SliderMouseDown 0] demo_start)) ! 0)
     = Some NaN"
proof -
  have a: "dragging (run [SliderMouseDown 0] demo_start) = Some 0"
    and b: "0 < length (sliders (run [SliderMouseDown 0] demo_start))"
    and c: "width (image_el (run [SliderMouseDown 0] demo_start)) = 0 \<or>
      height (image_el (run [SliderMouseDown 0] demo_start)) = 0"
    by (simp_all add: onmousedown_def demo_start_page)
  from drag_on_zero_size_image [OF a b c, of "-3" 0] a b c show ?thesis
    by (simp add: onmousedown_def demo_start_page js_div_def)
qed

text \<open>
  C4, as stated, fails in its second half. The claim: a drag of marker 0 with the pointer
  at \<open>(100, 300)\<close> of a 400x400 image stores exactly \<open>(0.25, 0.75)\<close>, and every vertex
  bound to marker 0 receives that texCoord. The fraction is stored, but it reaches no
  vertex: after the drag none of the eight vertices has the texCoord \<open>(1/4, 3/4)\<close>.
\<close>

theorem drag_100_300_reaches_no_vertex:
  "main demo_platform = Inr demo_start \<and>
   marker_fractions (run [ImageOnload 400 400, SliderMouseDown 0, BodyMouseMove 100 300] demo_start) ! 0
     = (Some (Num (1/4)), Some (Num (3/4))) \<and>
   length (texCoords (run [ImageOnload 400 400, SliderMouseDown 0, BodyMouseMove 100 300] demo_start)) = 8 \<and>
   vertices_with_texCoord (1/4, 3/4)
     (run [ImageOnload 400 400, SliderMouseDown 0, BodyMouseMove 100 300] demo_start) = []"
  using texCoords_demo [of "[ImageOnload 400 400, SliderMouseDown 0, BodyMouseMove 100 300]"]
  by (simp add: main_demo marker_fractions_def sliders_onmousemove vertices_with_texCoord_def
      onmousedown_def demo_start_page js_div_def new_slider_def upt_8 replicate_numerals)

text \<open>
  C4, amended: a drag of a marker with the pointer at \<open>(100, 300)\<close> relative to a
  400x400 image stores exactly the fraction pair \<open>(1/4, 3/4)\<close> on that marker and
  changes no other marker; it leaves every buffer, and with it every vertex's texCoord,
  as it was.
\<close>

theorem drag_100_300_on_400x400:
  assumes "dragging s = Some d" and "d < length (sliders s)"
    and "width (image_el s) = 400" and "height (image_el s) = 400"
    and "x - offsetLeft (image_el s) = 100" and "y - offsetTop (image_el s) = 300"
  shows "posInImageXPercent (sliders (onmousemove x y s) ! d) = Some (Num (1/4)) \<and>
         posInImageYPercent (sliders (onmousemove x y s) ! d) = Some (Num (3/4)) \<and>
         (sliders (onmousemove x y s))[d := sliders s ! d] = sliders s \<and>
         buffers (gl (onmousemove x y s)) = buffers (gl s) \<and>
         texCoords (onmousemove x y s) = texCoords s"
  using assms
  by (simp add: sliders_onmousemove js_div_def texCoords_def buffer_contents_def
      onmousemove_def Let_def)

text \<open>C4, witness: marker 0 on the demo platform, after the load of a 400x400 image.\<close>

theorem drag_100_300_on_400x400_witness:
  "dragging (run [ImageOnload 400 400, SliderMouseDown 0] demo_start) = Some 0 \<and>
   0 < length (sliders (run [ImageOnload 400 400, SliderMouseDown 0] demo_start)) \<and>
   width (image_el (run [ImageOnload 400 400, SliderMouseDown 0] demo_start)) = 400 \<and>
   height (image_el (run [ImageOnload 400 400, SliderMouseDown 0] demo_start)) = 400 \<and>
   100 - offsetLeft (image_el (run [ImageOnload 400 400, SliderMouseDown 0] demo_start)) = 100 \<and>
   300 - offsetTop (image_el (run [ImageOnload 400 400, SliderMouseDown 0] demo_start)) = 300 \<and>
   posInImageXPercent
     (sliders (onmousemove 100 300 (run [ImageOnload 400 400, SliderMouseDown 0] demo_start)) ! 0)
     = Some (Num (1/4)) \<and>
   posInImageYPercent
     (sliders (onmousemove 100 300 (run [ImageOnload 400 400, SliderMouseDown 0] demo_start)) ! 0)
     = Some (Num (3/4))"
proof -
  let ?s = "run [ImageOnload 400 400, SliderMouseDown 0] demo_start"
  have a: "dragging ?s = Some 0" and b: "0 < length (sliders ?s)"
    and c: "width (image_el ?s) = 400" and d: "height (image_el ?s) = 400"
    and e: "100 - offsetLeft (image_el ?s) = 100" and f: "300 - offsetTop (image_el ?s) = 300"
    by (simp_all add: onmousedown_def demo_start_page)
  from drag_100_300_on_400x400 [OF a b c d e f] a b c d e f show ?thesis
    by simp
qed

text \<open>
  C5. The drag update is idempotent: for every state and pointer position, running the
  handler twice with the same event leaves the same sliders (so the same marker
  fractions), the same buffers and the same vertex texCoords as running it once.
\<close>

theorem onmousemove_idempotent:
  "sliders (onmousemove x y (onmousemove x y s)) = sliders (onmousemove x y s) \<and>
   marker_fractions (onmousemove x y (onmousemove x y s)) = marker_fractions (onmousemove x y s) \<and>
   buffers (gl (onmousemove x y (onmousemove x y s))) = buffers (gl (onmousemove x y s)) \<and>
   texCoords (onmousemove x y (onmousemove x y s)) = texCoords (onmousemove x y s)"
proof -
  have s: "sliders (onmousemove x y (onmousemove x y s)) = sliders (onmousemove x y s)"
  proof (cases "dragging s")
    case None
    then show ?thesis by (simp add: sliders_onmousemove)
  next
    case (Some d)
    show ?thesis
    proof (cases "d < length (sliders s)")
      case True
      with Some show ?thesis by (simp add: sliders_onmousemove)
    next
      case False
      with Some show ?thesis by (simp add: sliders_onmousemove list_update_beyond not_less)
    qed
  qed
  have t: "texCoordBuffer (onmousemove x y s) = texCoordBuffer s" for s
    using step_handles(3) [of s "BodyMouseMove x y"] by simp
  show ?thesis
    by (simp add: s marker_fractions_def texCoords_def buffer_contents_def t)
qed

text \<open>
  C6, as stated, fails. The claim: \<open>createProgram\<close> attaches and links; on link
  failure it returns an error carrying the linker's diagnostic text and releases the
  program; and no shader object is leaked in any outcome. On a driver whose linker
  rejects the program with the log \<open>link failed\<close>, called as \<open>main\<close> calls it on
  the two compiled shaders 1 and 2: the result is \<open>null\<close>, which carries no text (the
  log goes to \<open>console.error\<close>); the program is released; and both shader objects
  are still allocated afterwards. \<open>main\<close> then ends with a \<open>TypeError\<close>, so nothing
  frees them later.
\<close>

theorem createProgram_failure_keeps_shaders:
  "fst (createProgram (two_shaders (link_fail_platform ''link failed'')) 1 2) = None \<and>
   map fst (shaders (snd (createProgram (two_shaders (link_fail_platform ''link failed'')) 1 2)))
     = [1, 2] \<and>
   programs (snd (createProgram (two_shaders (link_fail_platform ''link failed'')) 1 2)) = [] \<and>
   console_errors (snd (createProgram (two_shaders (link_fail_platform ''link failed'')) 1 2))
     = [(''Error linking program'', ''link failed'')] \<and>
   main (link_fail_platform ''link failed'') = Inl TypeError"
proof -
  have m: "main (link_fail_platform ''link failed'') = Inl TypeError"
    by (simp add: main_def link_fail_platform_def demo_platform_def getContext_def loadShader_eq
        createProgram_eq Let_def map_add_def)
  have c: "createProgram (two_shaders (link_fail_platform ''link failed'')) 1 2 =
    (None, (two_shaders (link_fail_platform ''link failed''))
       \<lparr>next_handle := 4, console_errors := [(''Error linking program'', ''link failed'')]\<rparr>)"
    by (subst createProgram_eq
          [where v = "\<lparr>sh_type = VERTEX_SHADER, sh_source = vertexShaderSource,
                        sh_compiled = True, sh_info_log = []\<rparr>"
             and f = "\<lparr>sh_type = FRAGMENT_SHADER, sh_source = fragmentShaderSource,
                        sh_compiled = True, sh_info_log = []\<rparr>"])
       (simp_all add: two_shaders_link_fail, simp add: link_fail_platform_def)
  show ?thesis
    unfolding c by (simp add: m two_shaders_link_fail)
qed

text \<open>
  C6, amended: called on two existing shader objects, in a context whose next handle is
  unused, \<open>createProgram\<close> creates a program, attaches both shaders in order and links
  it. If the link succeeds it returns the program handle, and the context differs only
  by the new linked program. If the link fails it returns \<open>null\<close>, the linker's log is
  written to \<open>console.error\<close>, and the program is released. In both outcomes the
  shader objects are exactly those from before the call: none is deleted.
\<close>

theorem createProgram_outcomes:
  assumes "map_of (programs g) (next_handle g) = None"
    and "current_program g \<noteq> Some (next_handle g)"
    and "map_of (shaders g) vs = Some v" and "map_of (shaders g) fs = Some f"
  shows "createProgram g vs fs =
     (if fst (link_result (driver g) [v, f])
      then (Some (next_handle g),
            g\<lparr>next_handle := Suc (next_handle g),
              programs := programs g @
                [(next_handle g, \<lparr>pr_attached = [vs, fs], pr_linked = True,
                    pr_info_log = snd (link_result (driver g) [v, f])\<rparr>)]\<rparr>)
      else (None,
            g\<lparr>next_handle := Suc (next_handle g),
              console_errors := console_errors g @
                [(''Error linking program'', snd (link_result (driver g) [v, f]))]\<rparr>))"
  using assms by (rule createProgram_eq)

text \<open>C6, witness: the context of \<open>main\<close> after its two shaders compiled, on a failing linker.\<close>

theorem createProgram_outcomes_witness:
  "map_of (programs (two_shaders (link_fail_platform ''no'')))
     (next_handle (two_shaders (link_fail_platform ''no''))) = None \<and>
   current_program (two_shaders (link_fail_platform ''no''))
     \<noteq> Some (next_handle (two_shaders (link_fail_platform ''no''))) \<and>
   map_of (shaders (two_shaders (link_fail_platform ''no''))) 1 =
     Some \<lparr>sh_type = VERTEX_SHADER, sh_source = vertexShaderSource,
           sh_compiled = True, sh_info_log = []\<rparr> \<and>
   map_of (shaders (two_shaders (link_fail_platform ''no''))) 2 =
     Some \<lparr>sh_type = FRAGMENT_SHADER, sh_source = fragmentShaderSource,
           sh_compiled = True, sh_info_log = []\<rparr> \<and>
   createProgram (two_shaders (link_fail_platform ''no'')) 1 2 =
     (None, (two_shaders (link_fail_platform ''no''))
        \<lparr>next_handle := 4, console_errors := [(''Error linking program'', ''no'')]\<rparr>)"
proof -
  let ?g = "two_shaders (link_fail_platform ''no'')"
  have a: "map_of (programs ?g) (next_handle ?g) = None"
    and b: "current_program ?g \<noteq> Some (next_handle ?g)"
    and c: "map_of (shaders ?g) 1 = Some \<lparr>sh_type = VERTEX_SHADER, sh_source = vertexShaderSource,
           sh_compiled = True, sh_info_log = []\<rparr>"
    and d: "map_of (shaders ?g) 2 = Some \<lparr>sh_type = FRAGMENT_SHADER, sh_source = fragmentShaderSource,
           sh_compiled = True, sh_info_log = []\<rparr>"
    by (simp_all add: two_shaders_link_fail)
  have e: "next_handle ?g = 3" "console_errors ?g = []" "driver ?g = link_fail_platform ''no''"
    by (simp_all add: two_shaders_link_fail)
  from createProgram_outcomes [OF a b c d] a b c d show ?thesis
    by (simp add: e) (simp add: link_fail_platform_def)
qed

text \<open>
  C7, as stated, fails. The claim: on compile failure \<open>loadShader\<close> returns a failure
  value carrying the compiler's diagnostic text. It returns \<open>null\<close>: two compilers
  with different diagnostics give the same result, and the diagnostic is found only in
  what was written to \<open>console.error\<close>.
\<close>

theorem loadShader_failure_returns_null:
  "fst (loadShader (getContext (compile_fail_platform ''ERROR: 0:1: syntax error''))
          VERTEX_SHADER vertexShaderSource) = None \<and>
   fst (loadShader (getContext (compile_fail_platform ''ERROR: 0:9: undeclared identifier''))
          VERTEX_SHADER vertexShaderSource) = None \<and>
   console_errors (snd (loadShader (getContext (compile_fail_platform ''ERROR: 0:1: syntax error''))
          VERTEX_SHADER vertexShaderSource))
     = [(''Error compiling shader'', ''ERROR: 0:1: syntax error'')]"
  by (simp add: loadShader_eq getContext_fresh)
     (simp add: getContext_def compile_fail_platform_def)

text \<open>
  C7, amended: in a context whose next handle is unused, \<open>loadShader\<close> creates a
  shader of the given stage, sets its source and compiles it. If the compilation fails it
  returns \<open>null\<close>, the compiler's log is written to \<open>console.error\<close>, and the new
  shader object is released, so that the objects of the context are those from before the
  call. If it succeeds it returns the handle of the new shader, and the context differs
  only by that compiled shader.
\<close>

theorem loadShader_outcomes:
  assumes "map_of (shaders g) (next_handle g) = None"
    and "\<not> list_ex (\<lambda>(p, ob). next_handle g \<in> set (pr_attached ob)) (programs g)"
  shows "loadShader g ty src =
     (if fst (compile_result (driver g) ty src)
      then (Some (next_handle g),
            g\<lparr>next_handle := Suc (next_handle g),
              shaders := shaders g @
                [(next_handle g, \<lparr>sh_type = ty, sh_source = src, sh_compiled = True,
                    sh_info_log = snd (compile_result (driver g) ty src)\<rparr>)]\<rparr>)
      else (None,
            g\<lparr>next_handle := Suc (next_handle g),
              console_errors := console_errors g @
                [(''Error compiling shader'', snd (compile_result (driver g) ty src))]\<rparr>))"
  using assms by (rule loadShader_eq)

text \<open>C7, witness: a fresh context, once on a failing compiler and once on the demo platform.\<close>

theorem loadShader_outcomes_witness:
  "map_of (shaders (getContext (compile_fail_platform ''bad'')))
      (next_handle (getContext (compile_fail_platform ''bad''))) = None \<and>
   \<not> list_ex (\<lambda>(p, ob). next_handle (getContext (compile_fail_platform ''bad'')) \<in> set (pr_attached ob))
      (programs (getContext (compile_fail_platform ''bad''))) \<and>
   loadShader (getContext (compile_fail_platform ''bad'')) FRAGMENT_SHADER fragmentShaderSource =
     (None, (getContext (compile_fail_platform ''bad''))
        \<lparr>next_handle := 2, console_errors := [(''Error compiling shader'', ''bad'')]\<rparr>) \<and>
   loadShader (getContext demo_platform) FRAGMENT_SHADER fragmentShaderSource =
     (Some 1, (getContext demo_platform)
        \<lparr>next_handle := 2,
         shaders := [(1, \<lparr>sh_type = FRAGMENT_SHADER, sh_source = fragmentShaderSource,
                          sh_compiled = True, sh_info_log = []\<rparr>)]\<rparr>)"
  using loadShader_outcomes [OF getContext_fresh, of "compile_fail_platform ''bad''"
      FRAGMENT_SHADER fragmentShaderSource]
    loadShader_outcomes [OF getContext_fresh, of demo_platform FRAGMENT_SHADER fragmentShaderSource]
  by (simp add: getContext_def compile_fail_platform_def demo_platform_def)

text \<open>
  C8. After a completed \<open>main\<close> and any events the context has exactly three buffers:
  the position buffer with 24 floats (8 vertices, 3 each), the texCoord buffer with 16
  floats (8 vertices, 2 each) and the index buffer with 18 unsigned shorts. There is at
  least one draw, and every draw is an indexed draw of triangles over all 18 indices of
  that index buffer, from offset 0.
\<close>

theorem geometry_store_layout:
  assumes "main pf = Inr s0"
  shows "buffers (gl (run evs s0)) =
           [(posBuffer s0, Some (Float32Array posData)),
            (texCoordBuffer s0, Some (Float32Array texCoordData)),
            (indexBuffer s0, Some (Uint16Array indexData))] \<and>
         length posData = 8 * 3 \<and> length indexData = 18 \<and> length texCoordData = 8 * 2 \<and>
         draws (gl (run evs s0)) \<noteq> [] \<and>
         list_all (\<lambda>d. dc_mode d = TRIANGLES \<and> dc_count d = length indexData \<and>
                        dc_type d = UNSIGNED_SHORT \<and> dc_offset d = 0 \<and>
                        dc_elements d = Some (Uint16Array indexData))
           (draws (gl (run evs s0)))"
proof -
  have inv: "pipeline_inv (run evs s0)"
    by (rule pipeline_inv_run [OF pipeline_inv_main [OF assms]])
  have h: "posBuffer s0 = 4" "texCoordBuffer s0 = 5" "indexBuffer s0 = 6"
    by (rule main_page(5-7) [OF assms])+
  have len: "length posData = 8 * 3" "length indexData = 18" "length texCoordData = 8 * 2"
    by (simp_all add: posData_def indexData_def texCoordData_def)
  have "list_all (good_draw (programInfo s0)) (draws (gl (run evs s0)))"
    using inv by (simp add: pipeline_inv_def)
  then have dr: "list_all (\<lambda>d. dc_mode d = TRIANGLES \<and> dc_count d = length indexData \<and>
                        dc_type d = UNSIGNED_SHORT \<and> dc_offset d = 0 \<and>
                        dc_elements d = Some (Uint16Array indexData)) (draws (gl (run evs s0)))"
    by (simp add: list_all_iff good_draw_def len)
  from inv h len dr show ?thesis
    by (simp add: pipeline_inv_def)
qed

text \<open>C8, witness: the demo platform, after a load, a press and a drag.\<close>

theorem geometry_store_layout_witness:
  "main demo_platform = Inr demo_start \<and>
   buffers (gl (run [ImageOnload 640 480, SliderMouseDown 2, BodyMouseMove 10 20] demo_start)) =
           [(4, Some (Float32Array posData)),
            (5, Some (Float32Array texCoordData)),
            (6, Some (Uint16Array indexData))] \<and>
   draws (gl (run [ImageOnload 640 480, SliderMouseDown 2, BodyMouseMove 10 20] demo_start)) \<noteq> []"
proof -
  have h: "posBuffer demo_start = 4" "texCoordBuffer demo_start = 5" "indexBuffer demo_start = 6"
    by (rule main_page(5-7) [OF main_demo])+
  from geometry_store_layout [OF main_demo,
      of "[ImageOnload 640 480, SliderMouseDown 2, BodyMouseMove 10 20]"]
    main_demo h show ?thesis by simp
qed

text \<open>
  C9. When \<open>main\<close> completes, before any image has loaded, the context has exactly one
  texture; its wrap mode is clamp-to-edge on both axes, its minification and
  magnification filters are linear, and its image is 1x1 with the single pixel
  \<open>(0, 0, 255, 255)\<close>, of full alpha. The one draw that \<open>main\<close> itself has made by
  then sampled this texture.
\<close>

theorem placeholder_texture_at_init:
  assumes "main pf = Inr s"
  shows "textures (gl s) =
           [(texture s, \<lparr>wrap_s = CLAMP_TO_EDGE, wrap_t = CLAMP_TO_EDGE,
                          min_filter = LINEAR, mag_filter = LINEAR,
                          level0 = Some (Pixels 1 1 [0, 0, 255, 255])\<rparr>)] \<and>
         map dc_texture (draws (gl s)) =
           [Some \<lparr>wrap_s = CLAMP_TO_EDGE, wrap_t = CLAMP_TO_EDGE,
                  min_filter = LINEAR, mag_filter = LINEAR,
                  level0 = Some (Pixels 1 1 [0, 0, 255, 255])\<rparr>]"
proof -
  from main_Inr [OF assms] obtain g where
    s: "s = render
          \<lparr>sliders = replicate 7 new_slider, dragging = None,
           image_el = \<lparr>offsetLeft = 0, offsetTop = 0, width = 0, height = 0\<rparr>,
           gl = g,
           programInfo = \<lparr>aPos = attrib_location pf ''aPos'',
                           aTexCoord = attrib_location pf ''aTexCoord''\<rparr>,
           posBuffer = 4, texCoordBuffer = 5, indexBuffer = 6, texture = 7\<rparr>"
      (is "s = render ?s0")
    and g: "textures g = [(7, placeholder_texture)]" "draws g = []"
    by blast
  from render_draws [of ?s0] obtain d where
    d: "draws (gl (render ?s0)) = draws (gl ?s0) @ [d]"
       "dc_texture d = map_of (textures (gl ?s0)) (texture ?s0)"
    by blast
  show ?thesis
    unfolding s using d g
    by (simp add: placeholder_texture_def pixel_def)
qed

text \<open>C9, witness: the demo platform, where the texture gets the handle 7.\<close>

theorem placeholder_texture_at_init_witness:
  "main demo_platform = Inr demo_start \<and>
   textures (gl demo_start) =
           [(7, \<lparr>wrap_s = CLAMP_TO_EDGE, wrap_t = CLAMP_TO_EDGE,
                          min_filter = LINEAR, mag_filter = LINEAR,
                          level0 = Some (Pixels 1 1 [0, 0, 255, 255])\<rparr>)]"
proof -
  have "texture demo_start = 7"
    by (rule main_page(8) [OF main_demo])
  with placeholder_texture_at_init [OF main_demo] main_demo show ?thesis by simp
qed

text \<open>
  C10. Every entry of the 18-entry index table is below 8, and 8 is the number of
  vertices in the position array (24 floats, 3 per vertex) and in the texCoord array
  (16 floats, 2 per vertex). Every draw of a session, after a completed \<open>main\<close> and any
  events, reads exactly these 18 indices, and each index it reads is below the vertex
  count of each attribute array the draw has: the position array, bound at \<open>aPos\<close> with
  3 components, and the texCoord array, bound at \<open>aTexCoord\<close> with 2 components (each
  present when its attribute has a location). No draw reads a vertex that does not
  exist.
\<close>

theorem draws_read_existing_vertices:
  assumes "main pf = Inr s0"
  shows "length indexData = 18 \<and> (\<forall>i \<in> set indexData. unat i < 8) \<and>
         array_vertex_count 3 (Some (Float32Array posData)) = 8 \<and>
         array_vertex_count 2 (Some (Float32Array texCoordData)) = 8 \<and>
         draws (gl (run evs s0)) \<noteq> [] \<and>
         (\<forall>d \<in> set (draws (gl (run evs s0))).
            indices_read d = indexData \<and> dc_count d = length (indices_read d) \<and>
            (\<forall>(loc, sz, dat) \<in> set (dc_arrays d).
               \<forall>i \<in> set (indices_read d). unat i < array_vertex_count sz dat) \<and>
            (0 \<le> aPos (programInfo s0) \<and> aPos (programInfo s0) \<noteq> aTexCoord (programInfo s0) \<longrightarrow>
               map_of (dc_arrays d) (aPos (programInfo s0)) = Some (3, Some (Float32Array posData))) \<and>
            (0 \<le> aTexCoord (programInfo s0) \<longrightarrow>
               map_of (dc_arrays d) (aTexCoord (programInfo s0)) =
                 Some (2, Some (Float32Array texCoordData))))"
proof -
  have tab: "length indexData = 18" "\<forall>i \<in> set indexData. unat i < 8"
    "array_vertex_count 3 (Some (Float32Array posData)) = 8"
    "array_vertex_count 2 (Some (Float32Array texCoordData)) = 8"
    by (simp_all add: indexData_def posData_def texCoordData_def array_vertex_count_def)
  have p: "pipeline_inv (run evs s0)"
    by (rule pipeline_inv_run [OF pipeline_inv_main [OF assms]])
  have a: "arrays_inv (run evs s0)"
    by (rule arrays_inv_run [OF pipeline_inv_main [OF assms] arrays_inv_main [OF assms]])
  have ne: "draws (gl (run evs s0)) \<noteq> []"
    using p by (simp add: pipeline_inv_def)
  have each: "indices_read d = indexData \<and> dc_count d = length (indices_read d) \<and>
            (\<forall>(loc, sz, dat) \<in> set (dc_arrays d).
               \<forall>i \<in> set (indices_read d). unat i < array_vertex_count sz dat) \<and>
            (0 \<le> aPos (programInfo s0) \<and> aPos (programInfo s0) \<noteq> aTexCoord (programInfo s0) \<longrightarrow>
               map_of (dc_arrays d) (aPos (programInfo s0)) = Some (3, Some (Float32Array posData))) \<and>
            (0 \<le> aTexCoord (programInfo s0) \<longrightarrow>
               map_of (dc_arrays d) (aTexCoord (programInfo s0)) =
                 Some (2, Some (Float32Array texCoordData)))"
    if d: "d \<in> set (draws (gl (run evs s0)))" for d
  proof -
    from p d have gd: "good_draw (programInfo s0) d"
      by (simp add: pipeline_inv_def list_all_iff)
    from a d have ad: "draw_arrays_ok (programInfo s0) d"
      by (simp add: arrays_inv_def list_all_iff)
    from gd have ir: "indices_read d = indexData" "dc_count d = 18"
      by (simp_all add: good_draw_def indices_read_def tab(1))
    have arr: "unat i < array_vertex_count sz dat"
      if "(loc, sz, dat) \<in> set (dc_arrays d)" and "i \<in> set indexData" for loc sz dat i
    proof -
      from ad that(1) have "array_ok (loc, sz, dat)"
        by (simp add: draw_arrays_ok_def list_all_iff)
      then have "array_vertex_count sz dat = 8"
        using tab(3,4) by (auto simp add: array_ok_def)
      with tab(2) that(2) show ?thesis by simp
    qed
    from gd ad ir arr tab(1) show ?thesis
      by (auto simp add: good_draw_def draw_arrays_ok_def)
  qed
  from tab ne each show ?thesis by blast
qed

text \<open>
  C10, witness: the last draw of a session on the demo platform (a load, a press and a
  drag), where \<open>aPos\<close> is at 0 and \<open>aTexCoord\<close> at 1, and the largest index, 7.
\<close>

theorem draws_read_existing_vertices_witness:
  "main demo_platform = Inr demo_start \<and>
   last (draws (gl (run [ImageOnload 400 400, SliderMouseDown 0, BodyMouseMove 100 300] demo_start)))
     \<in> set (draws (gl (run [ImageOnload 400 400, SliderMouseDown 0, BodyMouseMove 100 300] demo_start))) \<and>
   indices_read
     (last (draws (gl (run [ImageOnload 400 400, SliderMouseDown 0, BodyMouseMove 100 300] demo_start))))
     = indexData \<and>
   0 \<le> aPos (programInfo demo_start) \<and> 0 \<le> aTexCoord (programInfo demo_start) \<and>
   aPos (programInfo demo_start) \<noteq> aTexCoord (programInfo demo_start) \<and>
   (0, 3, Some (Float32Array posData)) \<in> set (dc_arrays
     (last (draws (gl (run [ImageOnload 400 400, SliderMouseDown 0, BodyMouseMove 100 300] demo_start))))) \<and>
   (1, 2, Some (Float32Array texCoordData)) \<in> set (dc_arrays
     (last (draws (gl (run [ImageOnload 400 400, SliderMouseDown 0, BodyMouseMove 100 300] demo_start))))) \<and>
   (7 :: 16 word) \<in> set indexData \<and>
   unat (7 :: 16 word) < array_vertex_count 3 (Some (Float32Array posData)) \<and>
   unat (7 :: 16 word) < array_vertex_count 2 (Some (Float32Array texCoordData))"
proof -
  let ?D = "draws (gl (run [ImageOnload 400 400, SliderMouseDown 0, BodyMouseMove 100 300] demo_start))"
  note t = draws_read_existing_vertices [OF main_demo,
      of "[ImageOnload 400 400, SliderMouseDown 0, BodyMouseMove 100 300]"]
  have info: "programInfo demo_start = \<lparr>aPos = 0, aTexCoord = 1\<rparr>"
    by (simp add: main_page(4) [OF main_demo] demo_platform_def)
  from t have ne: "?D \<noteq> []" by blast
  then have mem: "last ?D \<in> set ?D" by (rule last_in_set)
  from t mem have l: "indices_read (last ?D) = indexData"
    "map_of (dc_arrays (last ?D)) 0 = Some (3, Some (Float32Array posData))"
    "map_of (dc_arrays (last ?D)) 1 = Some (2, Some (Float32Array texCoordData))"
    by (auto simp add: info)
  have seven: "(7 :: 16 word) \<in> set indexData"
    by (simp add: indexData_def)
  from l(2) have m0: "(0, 3, Some (Float32Array posData)) \<in> set (dc_arrays (last ?D))"
    by (rule map_of_SomeD)
  from l(3) have m1: "(1, 2, Some (Float32Array texCoordData)) \<in> set (dc_arrays (last ?D))"
    by (rule map_of_SomeD)
  from t mem m0 m1 seven l(1)
  have "unat (7 :: 16 word) < array_vertex_count 3 (Some (Float32Array posData))"
    "unat (7 :: 16 word) < array_vertex_count 2 (Some (Float32Array texCoordData))"
    by fastforce+
  with main_demo mem l(1) m0 m1 seven show ?thesis
    by (simp add: info)
qed

end
